theory Spec2Isabelle
  imports Main "HOL-Library.Word" "HOL-Library.Char_ord" "HOL-Library.List_Lexorder"
begin

section \<open>Iceberg metadata resolution (IcebergMetadataParser.cpp)\<close>

text \<open>
  The embedding follows \<^verbatim>\<open>src/Storages/DataLakes/IcebergMetadataParser.cpp\<close>:
  \<^verbatim>\<open>getMetadataFile\<close>, \<^verbatim>\<open>getManifestListFromMetadata\<close>, \<^verbatim>\<open>getManifestFiles\<close>,
  \<^verbatim>\<open>parseAvro\<close>, \<^verbatim>\<open>getFilesForRead\<close> and \<^verbatim>\<open>getFiles\<close>. Every \<^verbatim>\<open>throw\<close> of the
  source, and every exception of a library call it makes, is a value \<open>Inl e\<close> of the
  result type \<open>error + 'a\<close>. The \<^verbatim>\<open>ContextPtr\<close> argument only carries format settings
  to the readers and is left out.
\<close>

subsection \<open>Errors\<close>

datatype error =
    FILE_DOESNT_EXIST string
      \<comment> \<open>\<^verbatim>\<open>ErrorCodes::FILE_DOESNT_EXIST\<close>, with \<^verbatim>\<open>configuration.url.key\<close>\<close>
  | ILLEGAL_COLUMN string string string
      \<comment> \<open>\<^verbatim>\<open>ErrorCodes::ILLEGAL_COLUMN\<close>: the field, the expected type, the type got\<close>
  | POCO_EXCEPTION string
      \<comment> \<open>an exception of the Poco JSON library\<close>
  | AVRO_EXCEPTION string
      \<comment> \<open>an exception of the Avro reader or of the row deserializer\<close>
  | READ_FAILURE string
      \<comment> \<open>a failure of the read helper, with the path\<close>

definition and_then :: "error + 'a \<Rightarrow> ('a \<Rightarrow> error + 'b) \<Rightarrow> error + 'b" where
  "and_then m f = (case m of Inl e \<Rightarrow> Inl e | Inr x \<Rightarrow> f x)"

subsection \<open>\<^verbatim>\<open>std::filesystem::path\<close> on a POSIX system\<close>

text \<open>
  A path is its native string. \<^verbatim>\<open>filename()\<close> is what follows the last separator
  (empty when the path ends in one). \<^verbatim>\<open>parent_path()\<close> drops the last element and
  the separators before it; a path with nothing but a root directory before the last
  element keeps that root directory as written. \<^verbatim>\<open>operator/\<close> replaces the left path
  by an absolute right path, and otherwise appends, with a separator when the left path
  has a filename.
\<close>

definition filename :: "string \<Rightarrow> string" where
  "filename p = rev (takeWhile (\<lambda>c. c \<noteq> CHR ''/'') (rev p))"

definition parent_path :: "string \<Rightarrow> string" where
  "parent_path p =
     (let upto_separator = dropWhile (\<lambda>c. c \<noteq> CHR ''/'') (rev p);
          stripped = dropWhile (\<lambda>c. c = CHR ''/'') upto_separator
      in if stripped = [] then rev upto_separator else rev stripped)"

definition is_absolute :: "string \<Rightarrow> bool" where
  "is_absolute p = (case p of [] \<Rightarrow> False | c # _ \<Rightarrow> c = CHR ''/'')"

definition has_filename :: "string \<Rightarrow> bool" where
  "has_filename p = (filename p \<noteq> [])"

definition path_append :: "string \<Rightarrow> string \<Rightarrow> string" where
  "path_append p q =
     (if is_absolute q then q
      else if has_filename p then p @ ''/'' @ q
      else p @ q)"

subsection \<open>JSON values of Poco\<close>

text \<open>
  A parsed document as \<^verbatim>\<open>Poco::Dynamic::Var\<close> holds it: \<open>JNull\<close> is the empty
  \<^verbatim>\<open>Var\<close> (a JSON \<^verbatim>\<open>null\<close>, and what \<^verbatim>\<open>Object::get\<close> returns for a key the object
  does not have), \<open>JInt\<close> an integer that fits \<^verbatim>\<open>Int64\<close>, \<open>JNumber\<close> any other number,
  by its literal. An object is the list of its members, one per key.
\<close>

datatype json =
    JNull
  | JBool bool
  | JInt "64 word"
  | JNumber string
  | JString string
  | JArray "json list"
  | JObject "(string \<times> json) list"

text \<open>
  \<^verbatim>\<open>Var::convert<T>()\<close> throws on the empty \<^verbatim>\<open>Var\<close> and returns the held value when
  it has the type asked for. What it makes of a value of another kind (a string read as
  a number, a number printed as a string, ...) is Poco's own business: those conversions
  are a parameter of the model.
\<close>

record VarConversions =
  other_to_Int64 :: "json \<Rightarrow> error + 64 word"
  other_to_String :: "json \<Rightarrow> error + string"

definition convert_Int64 :: "VarConversions \<Rightarrow> json \<Rightarrow> error + 64 word" where
  "convert_Int64 cv v =
     (case v of
        JNull \<Rightarrow> Inl (POCO_EXCEPTION ''Can not convert empty value.'')
      | JInt i \<Rightarrow> Inr i
      | _ \<Rightarrow> other_to_Int64 cv v)"

definition convert_String :: "VarConversions \<Rightarrow> json \<Rightarrow> error + string" where
  "convert_String cv v =
     (case v of
        JNull \<Rightarrow> Inl (POCO_EXCEPTION ''Can not convert empty value.'')
      | JString s \<Rightarrow> Inr s
      | _ \<Rightarrow> other_to_String cv v)"

definition Object_get :: "(string \<times> json) list \<Rightarrow> string \<Rightarrow> json" where
  "Object_get object k = (case map_of object k of None \<Rightarrow> JNull | Some v \<Rightarrow> v)"

definition getValue_Int64 :: "VarConversions \<Rightarrow> (string \<times> json) list \<Rightarrow> string \<Rightarrow> error + 64 word" where
  "getValue_Int64 cv object k = convert_Int64 cv (Object_get object k)"

definition getValue_String :: "VarConversions \<Rightarrow> (string \<times> json) list \<Rightarrow> string \<Rightarrow> error + string" where
  "getValue_String cv object k = convert_String cv (Object_get object k)"

definition extract_Object :: "json \<Rightarrow> error + (string \<times> json) list" where
  "extract_Object v =
     (case v of
        JObject object \<Rightarrow> Inr object
      | JNull \<Rightarrow> Inl (POCO_EXCEPTION ''Can not extract empty value.'')
      | _ \<Rightarrow> Inl (POCO_EXCEPTION ''Bad cast exception''))"

definition extract_Array :: "json \<Rightarrow> error + json list" where
  "extract_Array v =
     (case v of
        JArray elements \<Rightarrow> Inr elements
      | JNull \<Rightarrow> Inl (POCO_EXCEPTION ''Can not extract empty value.'')
      | _ \<Rightarrow> Inl (POCO_EXCEPTION ''Bad cast exception''))"

text \<open>
  \<^verbatim>\<open>Array::getObject(i)\<close> is a null pointer for an element that is not an object, and
  Poco's \<^verbatim>\<open>SharedPtr\<close> throws when it is dereferenced.
\<close>

definition getObject :: "json \<Rightarrow> error + (string \<times> json) list" where
  "getObject v =
     (case v of
        JObject object \<Rightarrow> Inr object
      | _ \<Rightarrow> Inl (POCO_EXCEPTION ''Null pointer''))"

subsection \<open>Avro containers\<close>

text \<open>
  An Avro container is taken as the Avro library presents it after the header is read:
  the schema's root node and the blocks of the file, each block the sequence of its rows
  (its object count is the number of rows it holds). The type model is the one the
  specification names: primitive kinds, strings and nested records.
\<close>

datatype avro_type =
    AVRO_INT
  | AVRO_LONG
  | AVRO_STRING
  | AVRO_RECORD "(string \<times> avro_type) list"

datatype avro_datum =
    DInt "32 word"
  | DLong "64 word"
  | DString string
  | DRecord "avro_datum list"

datatype avro_container = AvroContainer avro_type "avro_datum list list"

text \<open>
  What a read buffer holds, told apart by what the two parsers make of its bytes: a JSON
  text (by the document Poco parses it to), an Avro container, or anything else.
\<close>

datatype ReadBuffer =
    JsonText json
  | AvroBytes avro_container
  | OtherBytes

definition parse_json :: "ReadBuffer \<Rightarrow> error + json" where
  "parse_json buf =
     (case buf of
        JsonText j \<Rightarrow> Inr j
      | _ \<Rightarrow> Inl (POCO_EXCEPTION ''JSON syntax error''))"

subsection \<open>Configuration and the read helper\<close>

text \<open>
  Of the \<^verbatim>\<open>Configuration\<close> template parameter the parser itself reads only
  \<^verbatim>\<open>configuration.url.key\<close>, the table's root.
\<close>

record Configuration =
  url_key :: string

text \<open>
  \<^verbatim>\<open>MetadataReadHelper\<close> is the second template parameter of the parser: the two
  static functions it has to provide.
\<close>

record MetadataReadHelper =
  listFiles :: "Configuration \<Rightarrow> string \<Rightarrow> string \<Rightarrow> error + string list"
  createReadBuffer :: "string \<Rightarrow> Configuration \<Rightarrow> error + ReadBuffer"

definition metadata_directory :: string where
  "metadata_directory = ''metadata''"

definition metadata_file_suffix :: string where
  "metadata_file_suffix = ''.metadata.json''"

subsection \<open>\<^verbatim>\<open>getMetadataFile\<close>\<close>

text \<open>
  \<^verbatim>\<open>std::max_element\<close> with \<^verbatim>\<open>operator<\<close> of \<^verbatim>\<open>std::string\<close>: the first greatest
  element, under the lexicographic order of the bytes. It is only called on a non-empty
  range.
\<close>

fun max_element :: "string list \<Rightarrow> string" where
  "max_element [] = []"
| "max_element (x # xs) = foldl (\<lambda>largest y. if largest < y then y else largest) x xs"

definition getMetadataFile :: "MetadataReadHelper \<Rightarrow> Configuration \<Rightarrow> error + string" where
  "getMetadataFile helper configuration =
     and_then (listFiles helper configuration metadata_directory metadata_file_suffix)
       (\<lambda>metadata_files.
          if metadata_files = [] then Inl (FILE_DOESNT_EXIST (url_key configuration))
          else Inr (max_element metadata_files))"

subsection \<open>\<^verbatim>\<open>getManifestListFromMetadata\<close>\<close>

text \<open>The loop over the \<^verbatim>\<open>snapshots\<close> array; the empty string is \<^verbatim>\<open>return {}\<close>.\<close>

fun scan_snapshots :: "VarConversions \<Rightarrow> Configuration \<Rightarrow> 64 word \<Rightarrow> json list \<Rightarrow> error + string" where
  "scan_snapshots cv configuration current_snapshot_id [] = Inr []"
| "scan_snapshots cv configuration current_snapshot_id (element # rest) =
     and_then (getObject element)
       (\<lambda>snapshot.
          and_then (getValue_Int64 cv snapshot ''snapshot-id'')
            (\<lambda>snapshot_id.
               if snapshot_id = current_snapshot_id then
                 and_then (getValue_String cv snapshot ''manifest-list'')
                   (\<lambda>path.
                      Inr (path_append (path_append (url_key configuration) metadata_directory)
                             (filename path)))
               else scan_snapshots cv configuration current_snapshot_id rest))"

definition getManifestListFromMetadata ::
    "MetadataReadHelper \<Rightarrow> VarConversions \<Rightarrow> Configuration \<Rightarrow> error + string" where
  "getManifestListFromMetadata helper cv configuration =
     and_then (getMetadataFile helper configuration)
       (\<lambda>metadata_file_path.
     and_then (createReadBuffer helper metadata_file_path configuration)
       (\<lambda>buf.
     and_then (parse_json buf)
       (\<lambda>json.
     and_then (extract_Object json)
       (\<lambda>object.
     and_then (getValue_Int64 cv object ''current-snapshot-id'')
       (\<lambda>current_snapshot_id.
     and_then (extract_Array (Object_get object ''snapshots''))
       (\<lambda>snapshots.
          scan_snapshots cv configuration current_snapshot_id snapshots))))))"

subsection \<open>The Avro file reader\<close>

text \<open>
  \<^verbatim>\<open>avro::DataFileReaderBase\<close>: \<open>objectCount\<close> rows of the current block are still
  to be read, \<open>stream\<close> is what the decoder has not consumed of that block, \<open>pending\<close>
  the blocks after it. \<^verbatim>\<open>hasMore()\<close> moves on to the next block while the current one
  has no row left, and \<^verbatim>\<open>decr()\<close> counts one row down.
\<close>

record DataFileReaderBase =
  dataSchema :: avro_type
  objectCount :: nat
  stream :: "avro_datum list"
  pending :: "avro_datum list list"
  eof :: bool

definition open_avro :: "ReadBuffer \<Rightarrow> error + DataFileReaderBase" where
  "open_avro buf =
     (case buf of
        AvroBytes (AvroContainer root_node file_blocks) \<Rightarrow>
          Inr \<lparr>dataSchema = root_node, objectCount = 0, stream = [],
               pending = file_blocks, eof = False\<rparr>
      | _ \<Rightarrow> Inl (AVRO_EXCEPTION ''Invalid data file. Magic does not match''))"

definition readDataBlock :: "DataFileReaderBase \<Rightarrow> DataFileReaderBase" where
  "readDataBlock r =
     (case pending r of
        [] \<Rightarrow> r\<lparr>eof := True\<rparr>
      | b # bs \<Rightarrow> r\<lparr>objectCount := length b, stream := b, pending := bs\<rparr>)"

definition init :: "DataFileReaderBase \<Rightarrow> DataFileReaderBase" where
  "init r = readDataBlock r"

function hasMore :: "DataFileReaderBase \<Rightarrow> bool \<times> DataFileReaderBase" where
  "hasMore r =
     (if eof r then (False, r)
      else if objectCount r \<noteq> 0 then (True, r)
      else hasMore (readDataBlock r))"
  by pat_completeness auto
termination
  by (relation "measure (\<lambda>r. length (pending r) + (if eof r then 0 else 1))")
     (auto simp: readDataBlock_def split: list.splits)

declare hasMore.simps [simp del]

definition decr :: "DataFileReaderBase \<Rightarrow> DataFileReaderBase" where
  "decr r = r\<lparr>objectCount := objectCount r - 1\<rparr>"

text \<open>The decoder reads the next row of the current block off the stream.\<close>

definition decode_datum :: "DataFileReaderBase \<Rightarrow> error + (avro_datum \<times> DataFileReaderBase)" where
  "decode_datum r =
     (case stream r of
        [] \<Rightarrow> Inl (AVRO_EXCEPTION ''EOF reached'')
      | d # ds \<Rightarrow> Inr (d, r\<lparr>stream := ds\<rparr>))"

definition leafAt :: "avro_type \<Rightarrow> nat \<Rightarrow> error + avro_type" where
  "leafAt node i =
     (case node of
        AVRO_RECORD leaves \<Rightarrow>
          if i < length leaves then Inr (snd (leaves ! i))
          else Inl (AVRO_EXCEPTION ''leaf index out of range'')
      | _ \<Rightarrow> Inl (AVRO_EXCEPTION ''This type does not have attribute''))"

subsection \<open>Data types and columns\<close>

text \<open>
  Modelled from the spec: the column and data type classes (\<^verbatim>\<open>Columns/IColumn.h\<close>,
  \<^verbatim>\<open>ColumnString.h\<close>, \<^verbatim>\<open>ColumnTuple.h\<close> and the data types) are only included
  by the source. Specification 3, Projected Column: "an ordered sequence of typed values
  (here always strings, but the decoder must support decoding a field of any primitive or
  nested-record type ...)"; design note: "a tagged-variant type model (primitive kinds vs.
  nested-record kind)". A column is the sequence of its values, a tuple column the list
  of its element columns, as \<^verbatim>\<open>getColumnPtr(0)\<close> in the source reads it.
\<close>

datatype DataType =
    DataTypeInt32
  | DataTypeInt64
  | DataTypeString
  | DataTypeTuple "DataType list"

datatype TypeIndex = TypeIndex_Int32 | TypeIndex_Int64 | TypeIndex_String | TypeIndex_Tuple

datatype IColumn =
    ColumnInt32 "32 word list"
  | ColumnInt64 "64 word list"
  | ColumnString "string list"
  | ColumnTuple "IColumn list"

fun createColumn :: "DataType \<Rightarrow> IColumn" where
  "createColumn DataTypeInt32 = ColumnInt32 []"
| "createColumn DataTypeInt64 = ColumnInt64 []"
| "createColumn DataTypeString = ColumnString []"
| "createColumn (DataTypeTuple elements) = ColumnTuple (map createColumn elements)"

fun getDataType :: "IColumn \<Rightarrow> TypeIndex" where
  "getDataType (ColumnInt32 _) = TypeIndex_Int32"
| "getDataType (ColumnInt64 _) = TypeIndex_Int64"
| "getDataType (ColumnString _) = TypeIndex_String"
| "getDataType (ColumnTuple _) = TypeIndex_Tuple"

fun getFamilyName :: "IColumn \<Rightarrow> string" where
  "getFamilyName (ColumnInt32 _) = ''Int32''"
| "getFamilyName (ColumnInt64 _) = ''Int64''"
| "getFamilyName (ColumnString _) = ''String''"
| "getFamilyName (ColumnTuple _) = ''Tuple''"

text \<open>
  \<^verbatim>\<open>typeid_cast<ColumnString *>\<close> followed by the reads \<^verbatim>\<open>getDataAt(i)\<close> for
  \<open>i < size()\<close>: the strings of the column. The source casts only after it has checked
  the type index.
\<close>

fun string_data :: "IColumn \<Rightarrow> string list" where
  "string_data (ColumnString strings) = strings"
| "string_data _ = []"

text \<open>
  \<^verbatim>\<open>ColumnTuple::getColumnPtr(idx)\<close> indexes the vector of element columns; the source
  does not check the index, so an index out of range is an error of the model.
\<close>

definition getColumnPtr :: "IColumn \<Rightarrow> nat \<Rightarrow> error + IColumn" where
  "getColumnPtr col idx =
     (case col of
        ColumnTuple elements \<Rightarrow>
          if idx < length elements then Inr (elements ! idx)
          else Inl (AVRO_EXCEPTION ''tuple element out of range'')
      | _ \<Rightarrow> Inl (AVRO_EXCEPTION ''not a tuple column''))"

text \<open>
  Modelled from the spec: \<^verbatim>\<open>AvroSchemaReader::avroNodeToDataType\<close> is declared in
  \<^verbatim>\<open>Processors/Formats/Impl/AvroRowInputFormat.h\<close>, which is not among the sources.
  Specification 4.3: "resolve the declared type of the requested field (primitive,
  string, or nested record) into this system's own type representation"; the source's
  comment at the call: a nested record's "result type is a nested Tuple".
\<close>

fun avroNodeToDataType :: "avro_type \<Rightarrow> DataType" where
  "avroNodeToDataType AVRO_INT = DataTypeInt32"
| "avroNodeToDataType AVRO_LONG = DataTypeInt64"
| "avroNodeToDataType AVRO_STRING = DataTypeString"
| "avroNodeToDataType (AVRO_RECORD leaves) =
     DataTypeTuple (map (\<lambda>leaf. avroNodeToDataType (snd leaf)) leaves)"

subsection \<open>The row deserializer\<close>

text \<open>
  Modelled from the spec: \<^verbatim>\<open>AvroDeserializer\<close> (its constructor and
  \<^verbatim>\<open>deserializeRow\<close>) is declared in \<^verbatim>\<open>Processors/Formats/Impl/AvroRowInputFormat.h\<close>,
  which is not among the sources. Specification 4.3: "construct a row deserializer bound
  to a projection containing only that one field (so unread fields in each row's binary
  encoding are skipped, not value-constructed ...)", "decoding each row into an
  append-only column buffer", and "if the field's resolved type does not match the
  caller's expectation ..., fail with a TypeMismatch condition naming the expected and
  actual kinds"; 4.4: "requesting the field named manifest_path".

  The projection \<^verbatim>\<open>parseAvro\<close> hands to the constructor is a header of one column,
  \<^verbatim>\<open>Block{{data_type->createColumn(), data_type, field_name}}\<close>, together with the
  file's schema: a type and a name, and no position. So the deserializer is bound to
  the top-level field of the schema that carries the column's name, and reads that field
  of every row into the column; the field's type has to be the column's. The constructor
  is called with \<^verbatim>\<open>allow_missing_fields = true\<close>: a schema without a field of that name
  is no error, and every row then adds a default value to the column.

  The specification also describes the decoder by "the index of a chosen top-level field"
  (2, 4.3, 4.5). In the layouts of specification 6 the name stands at the position the
  source takes the column's type from (\<^verbatim>\<open>manifest_path\<close> first, \<^verbatim>\<open>data_file\<close>
  third), and there the field of that name is the field at that index.
\<close>

fun field_index :: "string \<Rightarrow> (string \<times> avro_type) list \<Rightarrow> nat option" where
  "field_index name [] = None"
| "field_index name (leaf # leaves) =
     (if fst leaf = name then Some 0 else map_option Suc (field_index name leaves))"

fun avro_type_name :: "avro_type \<Rightarrow> string" where
  "avro_type_name AVRO_INT = ''int''"
| "avro_type_name AVRO_LONG = ''long''"
| "avro_type_name AVRO_STRING = ''string''"
| "avro_type_name (AVRO_RECORD _) = ''record''"

datatype AvroDeserializer = RowAction "nat option"
  \<comment> \<open>the position of the field that is read into the column, when the schema has it\<close>

definition make_AvroDeserializer :: "DataType \<Rightarrow> string \<Rightarrow> avro_type \<Rightarrow> error + AvroDeserializer" where
  "make_AvroDeserializer data_type field_name root_node =
     (case root_node of
        AVRO_RECORD leaves \<Rightarrow>
          (case field_index field_name leaves of
             None \<Rightarrow> Inr (RowAction None)
           | Some i \<Rightarrow>
               if avroNodeToDataType (snd (leaves ! i)) = data_type then Inr (RowAction (Some i))
               else Inl (ILLEGAL_COLUMN field_name
                           (getFamilyName (createColumn data_type))
                           (avro_type_name (snd (leaves ! i)))))
      | _ \<Rightarrow> Inl (AVRO_EXCEPTION ''Root schema must be a record''))"

fun insert_datum :: "IColumn \<Rightarrow> avro_datum \<Rightarrow> error + IColumn"
  and insert_fields :: "IColumn list \<Rightarrow> avro_datum list \<Rightarrow> error + IColumn list" where
  "insert_datum (ColumnInt32 xs) (DInt i) = Inr (ColumnInt32 (xs @ [i]))"
| "insert_datum (ColumnInt64 xs) (DLong i) = Inr (ColumnInt64 (xs @ [i]))"
| "insert_datum (ColumnString xs) (DString s) = Inr (ColumnString (xs @ [s]))"
| "insert_datum (ColumnTuple elements) (DRecord ds) =
     and_then (insert_fields elements ds) (\<lambda>elements'. Inr (ColumnTuple elements'))"
| "insert_datum _ _ = Inl (AVRO_EXCEPTION ''row does not have the type of the schema'')"
| "insert_fields [] [] = Inr []"
| "insert_fields (c # cs) (d # ds) =
     and_then (insert_datum c d)
       (\<lambda>c'. and_then (insert_fields cs ds) (\<lambda>cs'. Inr (c' # cs')))"
| "insert_fields _ _ = Inl (AVRO_EXCEPTION ''row does not have the type of the schema'')"

fun insertDefault :: "IColumn \<Rightarrow> IColumn" where
  "insertDefault (ColumnInt32 xs) = ColumnInt32 (xs @ [0])"
| "insertDefault (ColumnInt64 xs) = ColumnInt64 (xs @ [0])"
| "insertDefault (ColumnString xs) = ColumnString (xs @ [[]])"
| "insertDefault (ColumnTuple elements) = ColumnTuple (map insertDefault elements)"

definition deserializeRow :: "AvroDeserializer \<Rightarrow> IColumn \<Rightarrow> avro_datum \<Rightarrow> error + IColumn" where
  "deserializeRow deserializer col row =
     (case deserializer of
        RowAction None \<Rightarrow> Inr (insertDefault col)
      | RowAction (Some i) \<Rightarrow>
          (case row of
             DRecord ds \<Rightarrow>
               if i < length ds then insert_datum col (ds ! i)
               else Inl (AVRO_EXCEPTION ''row does not have the type of the schema'')
           | _ \<Rightarrow> Inl (AVRO_EXCEPTION ''row does not have the type of the schema'')))"

subsection \<open>\<^verbatim>\<open>parseAvro\<close>\<close>

text \<open>Rows still to come: what the \<^verbatim>\<open>while\<close> loop of \<^verbatim>\<open>parseAvro\<close> counts down.\<close>

definition rows_left :: "DataFileReaderBase \<Rightarrow> nat" where
  "rows_left r =
     objectCount r + sum_list (map length (pending r)) + length (pending r)
       + (if eof r then 0 else 1)"

function parseAvro_loop ::
    "AvroDeserializer \<Rightarrow> DataFileReaderBase \<Rightarrow> IColumn \<Rightarrow> error + IColumn" where
  "parseAvro_loop deserializer file_reader col =
     (case hasMore file_reader of
        (has_more, r) \<Rightarrow>
          if has_more then
            (case decode_datum (decr r) of
               Inl e \<Rightarrow> Inl e
             | Inr (row, r') \<Rightarrow>
                 (case deserializeRow deserializer col row of
                    Inl e \<Rightarrow> Inl e
                  | Inr col' \<Rightarrow> parseAvro_loop deserializer r' col'))
          else Inr col)"
  by pat_completeness auto
termination
proof (relation "measure (\<lambda>(deserializer, file_reader, col). rows_left file_reader)", goal_cases)
  case 1
  show ?case by simp
next
  case (2 deserializer file_reader col has_more r decoded row r' col')
  have hasMore_rows_left:
    "rows_left r2 \<le> rows_left r1 \<and> (b \<longrightarrow> objectCount r2 \<noteq> 0)"
    if "hasMore r1 = (b, r2)" for r1 b r2
    using that
  proof (induction r1 rule: hasMore.induct)
    case (1 r1)
    show ?case
    proof (cases "eof r1 \<or> objectCount r1 \<noteq> 0")
      case True
      with "1.prems" show ?thesis
        by (auto simp: hasMore.simps [of r1] split: if_splits)
    next
      case False
      with "1.prems" have step: "hasMore (readDataBlock r1) = (b, r2)"
        by (simp add: hasMore.simps [of r1])
      from False have "rows_left (readDataBlock r1) \<le> rows_left r1"
        by (auto simp: rows_left_def readDataBlock_def split: list.splits)
      with "1.IH" [OF _ _ step] False show ?thesis
        by auto
    qed
  qed
  from 2 have "hasMore file_reader = (has_more, r)" "has_more"
    by simp_all
  from hasMore_rows_left [OF this(1)] this(2)
  have "rows_left r \<le> rows_left file_reader" "objectCount r \<noteq> 0"
    by simp_all
  moreover from 2 have "rows_left r' = rows_left (decr r)"
    by (auto simp: decode_datum_def rows_left_def split: list.splits)
  moreover have "rows_left (decr r) = rows_left r - 1"
    using \<open>objectCount r \<noteq> 0\<close> by (simp add: rows_left_def decr_def)
  moreover have "0 < rows_left r"
    using \<open>objectCount r \<noteq> 0\<close> by (simp add: rows_left_def)
  ultimately show ?case
    by simp
qed

declare parseAvro_loop.simps [simp del]

definition parseAvro ::
    "DataFileReaderBase \<Rightarrow> DataType \<Rightarrow> string \<Rightarrow> error + IColumn list" where
  "parseAvro file_reader data_type field_name =
     and_then (make_AvroDeserializer data_type field_name (dataSchema file_reader))
       (\<lambda>deserializer.
     and_then (parseAvro_loop deserializer (init file_reader) (createColumn data_type))
       (\<lambda>col. Inr [col]))"

text \<open>\<^verbatim>\<open>columns.at(0)\<close>: \<^verbatim>\<open>std::vector::at\<close> throws out of range.\<close>

definition at_0 :: "IColumn list \<Rightarrow> error + IColumn" where
  "at_0 columns =
     (case columns of
        [] \<Rightarrow> Inl (AVRO_EXCEPTION ''vector index out of range'')
      | col # _ \<Rightarrow> Inr col)"

subsection \<open>\<^verbatim>\<open>getManifestFiles\<close>\<close>

definition getManifestFiles ::
    "MetadataReadHelper \<Rightarrow> string \<Rightarrow> Configuration \<Rightarrow> error + string list" where
  "getManifestFiles helper manifest_list configuration =
     and_then (createReadBuffer helper manifest_list configuration)
       (\<lambda>buf.
     and_then (open_avro buf)
       (\<lambda>file_reader.
     and_then (leafAt (dataSchema file_reader) 0)
       (\<lambda>node.
     and_then (parseAvro file_reader (avroNodeToDataType node) ''manifest_path'')
       (\<lambda>columns.
     and_then (at_0 columns)
       (\<lambda>col.
          if getDataType col = TypeIndex_String then
            Inr (map (\<lambda>file_path.
                        path_append (path_append (url_key configuration) metadata_directory)
                          (filename file_path))
                   (string_data col))
          else Inl (ILLEGAL_COLUMN ''manifest_path'' ''String'' (getFamilyName col)))))))"

subsection \<open>\<^verbatim>\<open>getFilesForRead\<close>\<close>

text \<open>
  The body of the loop over the manifest files: the keys so far, extended by the data
  files of one manifest file.
\<close>

definition manifest_file_keys ::
    "MetadataReadHelper \<Rightarrow> Configuration \<Rightarrow> string list \<Rightarrow> string \<Rightarrow> error + string list" where
  "manifest_file_keys helper configuration keys manifest_file =
     and_then (createReadBuffer helper manifest_file configuration)
       (\<lambda>buffer.
     and_then (open_avro buffer)
       (\<lambda>file_reader.
     and_then (leafAt (dataSchema file_reader) 2)
       (\<lambda>node.
     and_then (parseAvro file_reader (avroNodeToDataType node) ''data_file'')
       (\<lambda>columns.
     and_then (at_0 columns)
       (\<lambda>col.
          if getDataType col = TypeIndex_Tuple then
            and_then (getColumnPtr col 0)
              (\<lambda>col_str.
                 if getDataType col_str = TypeIndex_String then
                   Inr (keys @
                        map (\<lambda>file_path.
                               path_append (filename (parent_path file_path)) (filename file_path))
                          (string_data col_str))
                 else Inl (ILLEGAL_COLUMN ''file_path'' ''String'' (getFamilyName col_str)))
          else Inl (ILLEGAL_COLUMN ''data_file'' ''Tuple'' (getFamilyName col)))))))"

fun getFilesForRead_loop ::
    "MetadataReadHelper \<Rightarrow> Configuration \<Rightarrow> string list \<Rightarrow> string list \<Rightarrow> error + string list" where
  "getFilesForRead_loop helper configuration keys [] = Inr keys"
| "getFilesForRead_loop helper configuration keys (manifest_file # manifest_files) =
     and_then (manifest_file_keys helper configuration keys manifest_file)
       (\<lambda>keys'. getFilesForRead_loop helper configuration keys' manifest_files)"

definition getFilesForRead ::
    "MetadataReadHelper \<Rightarrow> string list \<Rightarrow> Configuration \<Rightarrow> error + string list" where
  "getFilesForRead helper manifest_files configuration =
     getFilesForRead_loop helper configuration [] manifest_files"

subsection \<open>\<^verbatim>\<open>getFiles\<close>\<close>

definition getFiles ::
    "MetadataReadHelper \<Rightarrow> VarConversions \<Rightarrow> Configuration \<Rightarrow> error + string list" where
  "getFiles helper cv configuration =
     and_then (getManifestListFromMetadata helper cv configuration)
       (\<lambda>manifest_list.
          if manifest_list = [] then Inr []
          else
            and_then (getManifestFiles helper manifest_list configuration)
              (\<lambda>manifest_files. getFilesForRead helper manifest_files configuration))"

subsection \<open>A read helper over a table of files\<close>

text \<open>
  Modelled from the spec: the helper the parser is instantiated with
  (\<^verbatim>\<open>S3DataLakeMetadataReadHelper\<close>, \<^verbatim>\<open>Storages/DataLakes/S3MetadataReader.h\<close>) is not
  among the sources. Specification 6: "listFiles(root, subdirectory, suffix) -> ordered
  set of matching names" and "openReadStream(path) -> byte stream". Here the storage is
  a table from keys to what the files hold; listing gives the keys under
  \<^verbatim>\<open><root>/<subdirectory>/\<close> that end in the suffix. It serves as the concrete helper of
  the examples; the theorems below hold for every helper.
\<close>

definition ends_with :: "string \<Rightarrow> string \<Rightarrow> bool" where
  "ends_with s suffix = (length suffix \<le> length s \<and> drop (length s - length suffix) s = suffix)"

definition starts_with :: "string \<Rightarrow> string \<Rightarrow> bool" where
  "starts_with s prefix = (take (length prefix) s = prefix)"

definition table_helper :: "(string \<times> ReadBuffer) list \<Rightarrow> MetadataReadHelper" where
  "table_helper files =
     \<lparr>listFiles = (\<lambda>configuration subdirectory suffix.
         Inr (filter (\<lambda>k. starts_with k (path_append (url_key configuration) subdirectory @ ''/'')
                          \<and> ends_with k suffix)
                (map fst files))),
      createReadBuffer = (\<lambda>path configuration.
         case map_of files path of
           None \<Rightarrow> Inl (READ_FAILURE path)
         | Some buf \<Rightarrow> Inr buf)\<rparr>"

text \<open>Conversions that refuse every value of another kind.\<close>

definition strict_conversions :: VarConversions where
  "strict_conversions =
     \<lparr>other_to_Int64 = (\<lambda>v. Inl (POCO_EXCEPTION ''Bad cast exception'')),
      other_to_String = (\<lambda>v. Inl (POCO_EXCEPTION ''Bad cast exception''))\<rparr>"

subsection \<open>Example tables\<close>

definition versions_table :: "(string \<times> ReadBuffer) list" where
  "versions_table =
     [(''tbl/metadata/v1.metadata.json'', OtherBytes),
      (''tbl/metadata/v2.metadata.json'', OtherBytes),
      (''tbl/data/00000.parquet'', OtherBytes),
      (''tbl/metadata/v10.metadata.json'', OtherBytes),
      (''tbl/metadata/snap-1.avro'', OtherBytes)]"

subsection \<open>Views of a snapshot entry\<close>

text \<open>
  What the loop of \<^verbatim>\<open>getManifestListFromMetadata\<close> reads of one element of the
  \<^verbatim>\<open>snapshots\<close> array: its \<^verbatim>\<open>snapshot-id\<close> as \<^verbatim>\<open>Int64\<close> and its
  \<^verbatim>\<open>manifest-list\<close> as a string.
\<close>

definition snapshot_id_of :: "VarConversions \<Rightarrow> json \<Rightarrow> error + 64 word" where
  "snapshot_id_of cv element =
     and_then (getObject element) (\<lambda>snapshot. getValue_Int64 cv snapshot ''snapshot-id'')"

definition manifest_list_of :: "VarConversions \<Rightarrow> json \<Rightarrow> error + string" where
  "manifest_list_of cv element =
     and_then (getObject element) (\<lambda>snapshot. getValue_String cv snapshot ''manifest-list'')"

definition unset_marker_table :: "(string \<times> ReadBuffer) list" where
  "unset_marker_table =
     [(''tbl/metadata/v1.metadata.json'',
        JsonText (JObject [(''format-version'', JInt 1), (''current-snapshot-id'', JInt (- 1)),
                           (''snapshots'', JArray [])]))]"

definition unset_table :: "(string \<times> ReadBuffer) list" where
  "unset_table =
     [(''tbl/metadata/v1.metadata.json'',
        JsonText (JObject [(''format-version'', JInt 1), (''snapshots'', JArray [])]))]"

definition snapshots_table :: "(string \<times> ReadBuffer) list" where
  "snapshots_table =
     [(''tbl/metadata/v3.metadata.json'',
        JsonText (JObject [(''format-version'', JInt 1), (''current-snapshot-id'', JInt 7),
                           (''snapshots'', JArray
                              [JObject [(''snapshot-id'', JInt 5),
                                        (''manifest-list'', JString ''s3://bucket/w/tbl/metadata/snap-5.avro'')],
                               JObject [(''snapshot-id'', JInt 7),
                                        (''manifest-list'', JString ''s3://bucket/w/tbl/metadata/snap-7.avro'')],
                               JObject [(''snapshot-id'', JInt 7),
                                        (''manifest-list'', JString ''s3://bucket/w/tbl/metadata/snap-7b.avro'')]])]))]"

subsection \<open>Reading a container row by row\<close>

text \<open>
  The specification's words for the decoder (4.3): "iterate blocks, and within each
  block iterate rows, decoding each row into an append-only column buffer". As a
  function of the rows in file order it is the following fold; \<open>parseAvro\<close>, with its
  reader state and block boundaries, is compared with it below.
\<close>

fun decode_in_file_order :: "AvroDeserializer \<Rightarrow> IColumn \<Rightarrow> avro_datum list \<Rightarrow> error + IColumn" where
  "decode_in_file_order deserializer col [] = Inr col"
| "decode_in_file_order deserializer col (row # rows) =
     and_then (deserializeRow deserializer col row)
       (\<lambda>col'. decode_in_file_order deserializer col' rows)"

text \<open>
  The reader's state between two calls: the object count is the number of rows the
  decoder still has in the current block, and nothing is left once the end of the file
  was seen.
\<close>

definition reader_invariant :: "DataFileReaderBase \<Rightarrow> bool" where
  "reader_invariant r =
     (objectCount r = length (stream r) \<and> (if eof r then stream r = [] \<and> pending r = [] else True))"

definition unread_rows :: "DataFileReaderBase \<Rightarrow> avro_datum list" where
  "unread_rows r = stream r @ concat (pending r)"

subsection \<open>Rows that have the type of their schema\<close>

fun conforms :: "avro_type \<Rightarrow> avro_datum \<Rightarrow> bool"
  and conforms_fields :: "(string \<times> avro_type) list \<Rightarrow> avro_datum list \<Rightarrow> bool" where
  "conforms AVRO_INT (DInt _) = True"
| "conforms AVRO_LONG (DLong _) = True"
| "conforms AVRO_STRING (DString _) = True"
| "conforms (AVRO_RECORD leaves) (DRecord ds) = conforms_fields leaves ds"
| "conforms _ _ = False"
| "conforms_fields [] [] = True"
| "conforms_fields (leaf # leaves) (d # ds) = (conforms (snd leaf) d \<and> conforms_fields leaves ds)"
| "conforms_fields _ _ = False"

text \<open>The data type of a column, and \<^verbatim>\<open>IColumn::size()\<close>: the number of its rows.\<close>

fun column_type :: "IColumn \<Rightarrow> DataType" where
  "column_type (ColumnInt32 _) = DataTypeInt32"
| "column_type (ColumnInt64 _) = DataTypeInt64"
| "column_type (ColumnString _) = DataTypeString"
| "column_type (ColumnTuple elements) = DataTypeTuple (map column_type elements)"

fun column_size :: "IColumn \<Rightarrow> nat" where
  "column_size (ColumnInt32 xs) = length xs"
| "column_size (ColumnInt64 xs) = length xs"
| "column_size (ColumnString xs) = length xs"
| "column_size (ColumnTuple []) = 0"
| "column_size (ColumnTuple (c # _)) = column_size c"

text \<open>
  A tuple column keeps its rows in its element columns, so a tuple without elements
  keeps none: the data types whose columns count their rows.
\<close>

fun has_rows :: "DataType \<Rightarrow> bool" where
  "has_rows (DataTypeTuple []) = False"
| "has_rows (DataTypeTuple (t # _)) = has_rows t"
| "has_rows _ = True"

text \<open>
  The string a row holds in its top-level field \<open>i\<close>; and the \<^verbatim>\<open>file_path\<close> a row
  holds in its top-level field \<open>j\<close>, a record of type \<open>t\<close> whose first field is a string.
\<close>

fun string_field :: "nat \<Rightarrow> avro_datum \<Rightarrow> string option" where
  "string_field i (DRecord ds) =
     (if i < length ds then (case ds ! i of DString s \<Rightarrow> Some s | _ \<Rightarrow> None) else None)"
| "string_field i _ = None"

fun file_path_field :: "nat \<Rightarrow> avro_type \<Rightarrow> avro_datum \<Rightarrow> string option" where
  "file_path_field j t (DRecord ds) =
     (if j < length ds \<and> conforms t (ds ! j) then
        (case ds ! j of DRecord (DString p # _) \<Rightarrow> Some p | _ \<Rightarrow> None)
      else None)"
| "file_path_field j t _ = None"

definition mistyped_table :: "(string \<times> ReadBuffer) list" where
  "mistyped_table =
     [(''tbl/metadata/snap-1.avro'',
        AvroBytes (AvroContainer
          (AVRO_RECORD [(''manifest_path'', AVRO_LONG), (''manifest_length'', AVRO_LONG)])
          [[DRecord [DLong 17, DLong 5813], DRecord [DLong 18, DLong 6001]]])),
      (''tbl/metadata/m0.avro'',
        AvroBytes (AvroContainer
          (AVRO_RECORD [(''status'', AVRO_INT), (''snapshot_id'', AVRO_LONG),
             (''data_file'', AVRO_RECORD [(''file_path'', AVRO_STRING), (''record_count'', AVRO_LONG)])])
          [[DRecord [DInt 1, DLong 7, DRecord [DString ''/w/tbl/data/p=1/a.parquet'', DLong 100]]]])),
      (''tbl/metadata/m1.avro'',
        AvroBytes (AvroContainer
          (AVRO_RECORD [(''status'', AVRO_INT), (''snapshot_id'', AVRO_LONG),
             (''data_file'', AVRO_RECORD [(''file_path'', AVRO_LONG), (''record_count'', AVRO_LONG)])])
          [[DRecord [DInt 1, DLong 7, DRecord [DLong 42, DLong 100]]]]))]"

subsection \<open>Manifest lists and manifest files\<close>

text \<open>
  The persisted layouts of specification 6, as views of a container. A manifest list has
  \<^verbatim>\<open>manifest_path\<close>, a string, as the first top-level field of its schema; the view is
  the strings its rows hold there, when every row holds one. A manifest file has
  \<^verbatim>\<open>data_file\<close> as its third top-level field, a record whose first field is a string;
  the view is the strings the rows hold there, when every row holds a record of that
  type.
\<close>

definition manifest_list_entries :: "avro_container \<Rightarrow> string list option" where
  "manifest_list_entries container =
     (case container of
        AvroContainer (AVRO_RECORD leaves) file_blocks \<Rightarrow>
          if field_index ''manifest_path'' leaves = Some 0 \<and> snd (leaves ! 0) = AVRO_STRING
          then those (map (string_field 0) (concat file_blocks))
          else None
      | _ \<Rightarrow> None)"

definition data_file_entries :: "avro_container \<Rightarrow> string list option" where
  "data_file_entries container =
     (case container of
        AvroContainer (AVRO_RECORD leaves) file_blocks \<Rightarrow>
          if field_index ''data_file'' leaves = Some 2 then
            (case snd (leaves ! 2) of
               AVRO_RECORD ((n, AVRO_STRING) # rest) \<Rightarrow>
                 those (map (file_path_field 2 (snd (leaves ! 2))) (concat file_blocks))
             | _ \<Rightarrow> None)
          else None
      | _ \<Rightarrow> None)"

subsection \<open>Example tables with Avro files\<close>

definition iceberg_table :: "(string \<times> ReadBuffer) list" where
  "iceberg_table =
    [(''warehouse/tbl/metadata/v1.metadata.json'',
        JsonText (JObject [(''format-version'', JInt 1), (''current-snapshot-id'', JInt 7),
          (''snapshots'', JArray [JObject [(''snapshot-id'', JInt 7),
             (''manifest-list'', JString ''/data/warehouse/tbl/metadata/snap-7.avro'')]])])),
     (''warehouse/tbl/metadata/snap-7.avro'',
        AvroBytes (AvroContainer
          (AVRO_RECORD [(''manifest_path'', AVRO_STRING), (''manifest_length'', AVRO_LONG)])
          [[DRecord [DString ''/data/warehouse/tbl/metadata/m0.avro'', DLong 5813]]])),
     (''warehouse/tbl/metadata/m0.avro'',
        AvroBytes (AvroContainer
          (AVRO_RECORD [(''status'', AVRO_INT), (''snapshot_id'', AVRO_LONG),
             (''data_file'', AVRO_RECORD [(''file_path'', AVRO_STRING),
                (''file_format'', AVRO_STRING), (''record_count'', AVRO_LONG)])])
          [[DRecord [DInt 1, DLong 7,
               DRecord [DString ''/data/warehouse/tbl/data/p=1/a.parquet'', DString ''PARQUET'', DLong 100]],
            DRecord [DInt 1, DLong 7,
               DRecord [DString ''/data/warehouse/tbl/data/p=2/b.parquet'', DString ''PARQUET'', DLong 50]]]]))]"

definition yearly_table :: "(string \<times> ReadBuffer) list" where
  "yearly_table =
    [(''lake/events/metadata/v4.metadata.json'',
        JsonText (JObject [(''current-snapshot-id'', JInt 31),
          (''snapshots'', JArray [JObject [(''snapshot-id'', JInt 31),
             (''manifest-list'', JString ''s3://bucket/lake/events/metadata/snap-31.avro'')]])])),
     (''lake/events/metadata/snap-31.avro'',
        AvroBytes (AvroContainer
          (AVRO_RECORD [(''manifest_path'', AVRO_STRING)])
          [[DRecord [DString ''s3://bucket/lake/events/metadata/m31.avro'']]])),
     (''lake/events/metadata/m31.avro'',
        AvroBytes (AvroContainer
          (AVRO_RECORD [(''status'', AVRO_INT), (''snapshot_id'', AVRO_LONG),
             (''data_file'', AVRO_RECORD [(''file_path'', AVRO_STRING), (''record_count'', AVRO_LONG)])])
          [[DRecord [DInt 1, DLong 31,
               DRecord [DString ''s3://bucket/lake/events/data/year=2023/part-0.parquet'', DLong 9]]]]))]"

section \<open>Properties\<close>

subsection \<open>The metadata file locator\<close>

lemma foldl_largest_Max:
  "foldl (\<lambda>largest y. if largest < y then y else largest) x xs = Max (set (x # xs))"
proof (induction xs arbitrary: x)
  case Nil
  show ?case by simp
next
  case (Cons y ys)
  have step: "(if x < y then y else x) = max x y"
    by (auto simp: max_def)
  have "Max (set (max x y # ys)) = Max (set (x # y # ys))"
  proof (cases "ys = []")
    case True
    then show ?thesis by simp
  next
    case False
    then show ?thesis by (simp add: max.assoc)
  qed
  with Cons.IH [of "max x y"] step show ?case
    by simp
qed

lemma max_element_Max: "xs \<noteq> [] \<Longrightarrow> max_element xs = Max (set xs)"
  by (cases xs) (simp_all add: foldl_largest_Max del: set_simps)

lemma append_le_append_same: "(d @ a \<le> d @ b) = (a \<le> (b::string))"
  by (induction d) simp_all

lemma Max_three_versions:
  "Max {d @ ''v1.metadata.json'', d @ ''v2.metadata.json'', d @ ''v10.metadata.json''}
     = d @ ''v2.metadata.json''"
proof -
  have "d @ ''v10.metadata.json'' \<le> d @ ''v2.metadata.json''"
       "d @ ''v1.metadata.json'' \<le> d @ ''v2.metadata.json''"
    by (simp_all add: append_le_append_same)
  then show ?thesis
    by (simp add: max_absorb1 max_absorb2)
qed

text \<open>
  C4. Given the listing of the \<^verbatim>\<open>metadata\<close> directory for the suffix
  \<^verbatim>\<open>.metadata.json\<close>, \<open>getMetadataFile\<close> fails with \<open>FILE_DOESNT_EXIST\<close> exactly when
  the listing is empty, and otherwise returns the greatest listed name in the
  lexicographic order of strings. Among the unpadded versions \<open>v1\<close>, \<open>v2\<close> and \<open>v10\<close>
  (under any common prefix \<open>d\<close>) that is \<open>v2\<close>.
\<close>

theorem getMetadataFile_lexicographic_max:
  assumes "listFiles helper configuration metadata_directory metadata_file_suffix = Inr metadata_files"
  shows "getMetadataFile helper configuration =
           (if metadata_files = [] then Inl (FILE_DOESNT_EXIST (url_key configuration))
            else Inr (Max (set metadata_files)))
         \<and> (set metadata_files =
               {d @ ''v1.metadata.json'', d @ ''v2.metadata.json'', d @ ''v10.metadata.json''}
             \<longrightarrow> getMetadataFile helper configuration = Inr (d @ ''v2.metadata.json''))"
proof -
  have general: "getMetadataFile helper configuration =
           (if metadata_files = [] then Inl (FILE_DOESNT_EXIST (url_key configuration))
            else Inr (Max (set metadata_files)))"
    using assms by (simp add: getMetadataFile_def and_then_def max_element_Max)
  have "getMetadataFile helper configuration = Inr (d @ ''v2.metadata.json'')"
    if versions: "set metadata_files =
               {d @ ''v1.metadata.json'', d @ ''v2.metadata.json'', d @ ''v10.metadata.json''}"
  proof -
    from versions have "metadata_files \<noteq> []" by auto
    with general have "getMetadataFile helper configuration = Inr (Max (set metadata_files))"
      by simp
    also have "Max (set metadata_files) = d @ ''v2.metadata.json''"
      unfolding versions by (rule Max_three_versions)
    finally show ?thesis .
  qed
  with general show ?thesis by blast
qed

theorem getMetadataFile_lexicographic_max_witness:
  "listFiles (table_helper versions_table) \<lparr>url_key = ''tbl''\<rparr> metadata_directory metadata_file_suffix
     = Inr [''tbl/metadata/v1.metadata.json'', ''tbl/metadata/v2.metadata.json'',
            ''tbl/metadata/v10.metadata.json'']
   \<and> getMetadataFile (table_helper versions_table) \<lparr>url_key = ''tbl''\<rparr>
     = Inr (''tbl/metadata/'' @ ''v2.metadata.json'')
   \<and> listFiles (table_helper []) \<lparr>url_key = ''tbl''\<rparr> metadata_directory metadata_file_suffix = Inr []
   \<and> getMetadataFile (table_helper []) \<lparr>url_key = ''tbl''\<rparr> = Inl (FILE_DOESNT_EXIST ''tbl'')"
proof -
  have listing: "listFiles (table_helper versions_table) \<lparr>url_key = ''tbl''\<rparr> metadata_directory metadata_file_suffix
     = Inr [''tbl/metadata/v1.metadata.json'', ''tbl/metadata/v2.metadata.json'',
            ''tbl/metadata/v10.metadata.json'']"
    by code_simp
  have none: "listFiles (table_helper []) \<lparr>url_key = ''tbl''\<rparr> metadata_directory metadata_file_suffix = Inr []"
    by code_simp
  from getMetadataFile_lexicographic_max [OF listing, of "''tbl/metadata/''"]
       getMetadataFile_lexicographic_max [OF none, of "[]"]
  show ?thesis
    using listing none by simp
qed

subsection \<open>Paths\<close>

lemma and_then_simps [simp]:
  "and_then (Inl e) f = Inl e"
  "and_then (Inr x) f = f x"
  by (simp_all add: and_then_def)

lemma filename_no_separator: "CHR ''/'' \<notin> set (filename p)"
  unfolding filename_def using set_takeWhileD [of "CHR ''/''" "\<lambda>c. c \<noteq> CHR ''/''" "rev p"]
  by auto

lemma filename_not_absolute: "\<not> is_absolute (filename p)"
  using filename_no_separator [of p]
  by (cases "filename p") (auto simp: is_absolute_def)

lemma filename_append_separator: "filename (p @ CHR ''/'' # q) = filename q"
  by (simp add: filename_def takeWhile_tail)

lemma filename_without_separator: "CHR ''/'' \<notin> set q \<Longrightarrow> filename q = q"
proof -
  assume "CHR ''/'' \<notin> set q"
  then have "takeWhile (\<lambda>c. c \<noteq> CHR ''/'') (rev q) = rev q"
    by (auto simp: takeWhile_eq_all_conv)
  then show ?thesis
    unfolding filename_def by (simp only: rev_rev_ident)
qed

lemma filename_empty_iff: "filename p = [] \<longleftrightarrow> p = [] \<or> last p = CHR ''/''"
  by (cases p rule: rev_cases) (auto simp: filename_def)

lemma filename_metadata_directory: "filename (path_append key metadata_directory) = ''metadata''"
proof (cases "has_filename key")
  case True
  then have "path_append key metadata_directory = key @ CHR ''/'' # ''metadata''"
    by (simp add: path_append_def metadata_directory_def is_absolute_def)
  then show ?thesis
    by (simp only: filename_append_separator) (simp add: filename_def)
next
  case False
  then have key: "key = [] \<or> last key = CHR ''/''"
    by (simp add: has_filename_def filename_empty_iff)
  from False have eq: "path_append key metadata_directory = key @ ''metadata''"
    by (simp add: path_append_def metadata_directory_def is_absolute_def)
  show ?thesis
  proof (cases "key = []")
    case True
    with eq show ?thesis by (simp add: filename_def)
  next
    case False
    with key obtain k where "key = k @ [CHR ''/'']"
      by (metis append_butlast_last_id)
    with eq have "path_append key metadata_directory = k @ CHR ''/'' # ''metadata''"
      by simp
    then show ?thesis
      by (simp only: filename_append_separator) (simp add: filename_def)
  qed
qed

lemma metadata_path_eq:
  "path_append (path_append key metadata_directory) (filename p)
     = path_append key metadata_directory @ ''/'' @ filename p"
  by (simp add: path_append_def [of "path_append key metadata_directory"] filename_not_absolute
        has_filename_def filename_metadata_directory)

lemma metadata_path_concat:
  "has_filename key \<Longrightarrow>
     path_append (path_append key metadata_directory) (filename p)
       = key @ ''/metadata/'' @ filename p"
  by (simp add: metadata_path_eq)
     (simp add: path_append_def metadata_directory_def is_absolute_def)

subsection \<open>The snapshot resolver\<close>

lemma scan_snapshots_first_match:
  assumes "\<forall>s \<in> set earlier. \<exists>sid. snapshot_id_of cv s = Inr sid \<and> sid \<noteq> current"
    and "snapshot_id_of cv element = Inr current"
    and "manifest_list_of cv element = Inr manifest_list"
  shows "scan_snapshots cv configuration current (earlier @ element # later)
           = Inr (path_append (path_append (url_key configuration) metadata_directory)
                    (filename manifest_list))"
  using assms
proof (induction earlier)
  case Nil
  then show ?case
    by (cases "getObject element") (auto simp: snapshot_id_of_def manifest_list_of_def)
next
  case (Cons s earlier)
  then obtain sid where "snapshot_id_of cv s = Inr sid" "sid \<noteq> current"
    by auto
  with Cons show ?case
    by (cases "getObject s") (auto simp: snapshot_id_of_def)
qed

lemma scan_snapshots_no_match:
  assumes "\<forall>s \<in> set snapshots. \<exists>sid. snapshot_id_of cv s = Inr sid \<and> sid \<noteq> current"
  shows "scan_snapshots cv configuration current snapshots = Inr []"
  using assms
proof (induction snapshots)
  case Nil
  show ?case by simp
next
  case (Cons s snapshots)
  then obtain sid where "snapshot_id_of cv s = Inr sid" "sid \<noteq> current"
    by auto
  with Cons show ?case
    by (cases "getObject s") (auto simp: snapshot_id_of_def)
qed

lemma getManifestListFromMetadata_document:
  assumes "getMetadataFile helper configuration = Inr metadata_file_path"
    and "createReadBuffer helper metadata_file_path configuration = Inr (JsonText (JObject object))"
  shows "getManifestListFromMetadata helper cv configuration =
           and_then (getValue_Int64 cv object ''current-snapshot-id'')
             (\<lambda>current.
                and_then (extract_Array (Object_get object ''snapshots''))
                  (scan_snapshots cv configuration current))"
  using assms by (simp add: getManifestListFromMetadata_def parse_json_def extract_Object_def)

text \<open>
  C5. When the metadata document has an entry of \<^verbatim>\<open>snapshots\<close> whose
  \<^verbatim>\<open>snapshot-id\<close>, read as \<^verbatim>\<open>Int64\<close>, is the \<^verbatim>\<open>current-snapshot-id\<close> (entry \<open>i\<close>,
  the entries before it being snapshot records with other identifiers), the resolver
  returns that entry's \<^verbatim>\<open>manifest-list\<close> value rewritten to
  \<^verbatim>\<open><table-root>/metadata/<filename>\<close>: the path join of the source, which is the
  plain concatenation whenever the table root does not end in a separator.
\<close>

theorem snapshot_resolver_matching_entry:
  assumes "getMetadataFile helper configuration = Inr metadata_file_path"
    and "createReadBuffer helper metadata_file_path configuration = Inr (JsonText (JObject object))"
    and "getValue_Int64 cv object ''current-snapshot-id'' = Inr current"
    and "Object_get object ''snapshots'' = JArray snapshots"
    and "i < length snapshots"
    and "snapshot_id_of cv (snapshots ! i) = Inr current"
    and "manifest_list_of cv (snapshots ! i) = Inr manifest_list"
    and "\<forall>j<i. \<exists>sid. snapshot_id_of cv (snapshots ! j) = Inr sid \<and> sid \<noteq> current"
  shows "getManifestListFromMetadata helper cv configuration
           = Inr (path_append (path_append (url_key configuration) metadata_directory)
                    (filename manifest_list))
         \<and> (has_filename (url_key configuration) \<longrightarrow>
              getManifestListFromMetadata helper cv configuration
                = Inr (url_key configuration @ ''/metadata/'' @ filename manifest_list))"
proof -
  have split: "snapshots = take i snapshots @ snapshots ! i # drop (Suc i) snapshots"
    using assms(5) by (simp add: id_take_nth_drop)
  have earlier: "\<forall>s \<in> set (take i snapshots). \<exists>sid. snapshot_id_of cv s = Inr sid \<and> sid \<noteq> current"
    using assms(5,8) by (auto simp: in_set_conv_nth)
  have "scan_snapshots cv configuration current snapshots
          = Inr (path_append (path_append (url_key configuration) metadata_directory)
                   (filename manifest_list))"
    using scan_snapshots_first_match [OF earlier assms(6,7), of configuration "drop (Suc i) snapshots"]
      split by simp
  then have "getManifestListFromMetadata helper cv configuration
           = Inr (path_append (path_append (url_key configuration) metadata_directory)
                    (filename manifest_list))"
    using getManifestListFromMetadata_document [OF assms(1,2), of cv] assms(3,4)
    by (simp add: extract_Array_def)
  then show ?thesis
    by (simp add: metadata_path_concat)
qed

theorem snapshot_resolver_matching_entry_witness:
  "getManifestListFromMetadata (table_helper snapshots_table) strict_conversions \<lparr>url_key = ''tbl''\<rparr>
     = Inr ''tbl/metadata/snap-7.avro''"
proof -
  let ?object = "[(''format-version'', JInt 1), (''current-snapshot-id'', JInt 7),
                           (''snapshots'', JArray
                              [JObject [(''snapshot-id'', JInt 5),
                                        (''manifest-list'', JString ''s3://bucket/w/tbl/metadata/snap-5.avro'')],
                               JObject [(''snapshot-id'', JInt 7),
                                        (''manifest-list'', JString ''s3://bucket/w/tbl/metadata/snap-7.avro'')],
                               JObject [(''snapshot-id'', JInt 7),
                                        (''manifest-list'', JString ''s3://bucket/w/tbl/metadata/snap-7b.avro'')]])]"
  let ?snapshots = "[JObject [(''snapshot-id'', JInt 5),
                                        (''manifest-list'', JString ''s3://bucket/w/tbl/metadata/snap-5.avro'')],
                               JObject [(''snapshot-id'', JInt 7),
                                        (''manifest-list'', JString ''s3://bucket/w/tbl/metadata/snap-7.avro'')],
                               JObject [(''snapshot-id'', JInt 7),
                                        (''manifest-list'', JString ''s3://bucket/w/tbl/metadata/snap-7b.avro'')]]"
  have h1: "getMetadataFile (table_helper snapshots_table) \<lparr>url_key = ''tbl''\<rparr>
              = Inr ''tbl/metadata/v3.metadata.json''"
    by code_simp
  have h2: "createReadBuffer (table_helper snapshots_table) ''tbl/metadata/v3.metadata.json''
              \<lparr>url_key = ''tbl''\<rparr> = Inr (JsonText (JObject ?object))"
    by code_simp
  have h3: "getValue_Int64 strict_conversions ?object ''current-snapshot-id'' = Inr 7"
    by code_simp
  have h4: "Object_get ?object ''snapshots'' = JArray ?snapshots"
    by code_simp
  have h5: "Suc 0 < length ?snapshots"
    by simp
  have h6: "snapshot_id_of strict_conversions (?snapshots ! Suc 0) = Inr 7"
    by code_simp
  have h7: "manifest_list_of strict_conversions (?snapshots ! Suc 0)
              = Inr ''s3://bucket/w/tbl/metadata/snap-7.avro''"
    by code_simp
  have h8: "\<forall>j<Suc 0. \<exists>sid. snapshot_id_of strict_conversions (?snapshots ! j) = Inr sid \<and> sid \<noteq> 7"
    by (simp add: snapshot_id_of_def getObject_def getValue_Int64_def convert_Int64_def Object_get_def)
  have name: "filename ''s3://bucket/w/tbl/metadata/snap-7.avro'' = ''snap-7.avro''"
    by code_simp
  have key: "has_filename (url_key \<lparr>url_key = ''tbl''\<rparr>)"
    by code_simp
  from snapshot_resolver_matching_entry [OF h1 h2 h3 h4 h5 h6 h7 h8, THEN conjunct2] key
  show ?thesis
    by (simp add: name)
qed

lemma metadata_path_inject:
  "path_append (path_append key metadata_directory) (filename p)
     = path_append (path_append key metadata_directory) (filename q)
   \<Longrightarrow> filename p = filename q"
  by (simp add: metadata_path_eq)

text \<open>
  C10. When more than one entry of \<^verbatim>\<open>snapshots\<close> carries the
  \<^verbatim>\<open>current-snapshot-id\<close>, the resolver returns the path derived from the first of
  them in array order, whatever follows it; a later matching entry with another file
  name is not the one returned.
\<close>

theorem first_matching_snapshot_wins:
  assumes "getMetadataFile helper configuration = Inr metadata_file_path"
    and "createReadBuffer helper metadata_file_path configuration = Inr (JsonText (JObject object))"
    and "getValue_Int64 cv object ''current-snapshot-id'' = Inr current"
    and "Object_get object ''snapshots'' = JArray (earlier @ first_match # later)"
    and "\<forall>s \<in> set earlier. \<exists>sid. snapshot_id_of cv s = Inr sid \<and> sid \<noteq> current"
    and "snapshot_id_of cv first_match = Inr current"
    and "manifest_list_of cv first_match = Inr first_list"
    and "later_match \<in> set later"
    and "snapshot_id_of cv later_match = Inr current"
    and "manifest_list_of cv later_match = Inr later_list"
  shows "getManifestListFromMetadata helper cv configuration
           = Inr (path_append (path_append (url_key configuration) metadata_directory)
                    (filename first_list))
         \<and> (filename later_list \<noteq> filename first_list \<longrightarrow>
              getManifestListFromMetadata helper cv configuration
                \<noteq> Inr (path_append (path_append (url_key configuration) metadata_directory)
                         (filename later_list)))"
proof -
  have "getManifestListFromMetadata helper cv configuration
           = Inr (path_append (path_append (url_key configuration) metadata_directory)
                    (filename first_list))"
    using getManifestListFromMetadata_document [OF assms(1,2), of cv] assms(3,4)
      scan_snapshots_first_match [OF assms(5,6,7), of configuration later]
    by (simp add: extract_Array_def)
  then show ?thesis
    using metadata_path_inject [of "url_key configuration" later_list first_list] by auto
qed

theorem first_matching_snapshot_wins_witness:
  "getManifestListFromMetadata (table_helper snapshots_table) strict_conversions \<lparr>url_key = ''tbl''\<rparr>
     = Inr (path_append (path_append ''tbl'' metadata_directory) ''snap-7.avro'')
   \<and> getManifestListFromMetadata (table_helper snapshots_table) strict_conversions \<lparr>url_key = ''tbl''\<rparr>
     \<noteq> Inr (path_append (path_append ''tbl'' metadata_directory) ''snap-7b.avro'')"
proof -
  let ?s5 = "JObject [(''snapshot-id'', JInt 5),
                      (''manifest-list'', JString ''s3://bucket/w/tbl/metadata/snap-5.avro'')]"
  let ?s7 = "JObject [(''snapshot-id'', JInt 7),
                      (''manifest-list'', JString ''s3://bucket/w/tbl/metadata/snap-7.avro'')]"
  let ?s7b = "JObject [(''snapshot-id'', JInt 7),
                       (''manifest-list'', JString ''s3://bucket/w/tbl/metadata/snap-7b.avro'')]"
  let ?object = "[(''format-version'', JInt 1), (''current-snapshot-id'', JInt 7),
                  (''snapshots'', JArray [?s5, ?s7, ?s7b])]"
  have h1: "getMetadataFile (table_helper snapshots_table) \<lparr>url_key = ''tbl''\<rparr>
              = Inr ''tbl/metadata/v3.metadata.json''"
    by code_simp
  have h2: "createReadBuffer (table_helper snapshots_table) ''tbl/metadata/v3.metadata.json''
              \<lparr>url_key = ''tbl''\<rparr> = Inr (JsonText (JObject ?object))"
    by code_simp
  have h3: "getValue_Int64 strict_conversions ?object ''current-snapshot-id'' = Inr 7"
    by code_simp
  have h4: "Object_get ?object ''snapshots'' = JArray ([?s5] @ ?s7 # [?s7b])"
    by code_simp
  have h5: "\<forall>s \<in> set [?s5]. \<exists>sid. snapshot_id_of strict_conversions s = Inr sid \<and> sid \<noteq> 7"
    by (simp add: snapshot_id_of_def getObject_def getValue_Int64_def convert_Int64_def Object_get_def)
  have h6: "snapshot_id_of strict_conversions ?s7 = Inr 7"
    by code_simp
  have h7: "manifest_list_of strict_conversions ?s7 = Inr ''s3://bucket/w/tbl/metadata/snap-7.avro''"
    by code_simp
  have h8: "?s7b \<in> set [?s7b]"
    by simp
  have h9: "snapshot_id_of strict_conversions ?s7b = Inr 7"
    by code_simp
  have h10: "manifest_list_of strict_conversions ?s7b = Inr ''s3://bucket/w/tbl/metadata/snap-7b.avro''"
    by code_simp
  have n1: "filename ''s3://bucket/w/tbl/metadata/snap-7.avro'' = ''snap-7.avro''"
    by code_simp
  have n2: "filename ''s3://bucket/w/tbl/metadata/snap-7b.avro'' = ''snap-7b.avro''"
    by code_simp
  have ne: "''snap-7b.avro'' \<noteq> ''snap-7.avro''"
    by simp
  note wins = first_matching_snapshot_wins [OF h1 h2 h3 h4 h5 h6 h7 h8 h9 h10, unfolded n1 n2]
  from wins [THEN conjunct1] wins [THEN conjunct2, THEN mp, OF ne]
  show ?thesis
    by simp
qed

text \<open>
  The table without data that the source is written for (the comment in \<^verbatim>\<open>getFiles\<close>:
  "When table first created and does not have any data"): a \<^verbatim>\<open>current-snapshot-id\<close>
  that reads as an \<^verbatim>\<open>Int64\<close> which no entry of \<^verbatim>\<open>snapshots\<close> carries, such as the
  unset marker \<open>-1\<close>. The loop falls through to \<^verbatim>\<open>return {}\<close> and \<open>getFiles\<close> returns
  the empty sequence.
\<close>

lemma getFiles_no_matching_snapshot:
  assumes "getMetadataFile helper configuration = Inr metadata_file_path"
    and "createReadBuffer helper metadata_file_path configuration = Inr (JsonText (JObject object))"
    and "getValue_Int64 cv object ''current-snapshot-id'' = Inr current"
    and "Object_get object ''snapshots'' = JArray snapshots"
    and "\<forall>s \<in> set snapshots. \<exists>sid. snapshot_id_of cv s = Inr sid \<and> sid \<noteq> current"
  shows "getFiles helper cv configuration = Inr []"
proof -
  have "scan_snapshots cv configuration current snapshots = Inr []"
    using assms(5) by (rule scan_snapshots_no_match)
  with assms(3,4) have "getManifestListFromMetadata helper cv configuration = Inr []"
    using getManifestListFromMetadata_document [OF assms(1,2), of cv]
    by (simp add: extract_Array_def)
  then show ?thesis
    by (simp add: getFiles_def)
qed

lemma getFiles_unset_marker_returns_empty:
  "getFiles (table_helper unset_marker_table) strict_conversions \<lparr>url_key = ''tbl''\<rparr> = Inr []"
  by code_simp

text \<open>
  C2. The claim asks for the empty sequence also when \<^verbatim>\<open>current-snapshot-id\<close> is
  absent. On such a document the source does not reach its \<^verbatim>\<open>return {}\<close>: the read
  \<^verbatim>\<open>object->getValue<Int64>("current-snapshot-id")\<close> throws on the missing key, and
  \<open>getFiles\<close> fails. The document is the one of \<open>unset_marker_table\<close> without the key.
\<close>

theorem getFiles_absent_current_snapshot_id_fails:
  "map_of [(''format-version'', JInt 1), (''snapshots'', JArray [])] ''current-snapshot-id'' = None
   \<and> createReadBuffer (table_helper unset_table) ''tbl/metadata/v1.metadata.json'' \<lparr>url_key = ''tbl''\<rparr>
       = Inr (JsonText (JObject [(''format-version'', JInt 1), (''snapshots'', JArray [])]))
   \<and> getFiles (table_helper unset_table) strict_conversions \<lparr>url_key = ''tbl''\<rparr>
       = Inl (POCO_EXCEPTION ''Can not convert empty value.'')"
  by code_simp

subsection \<open>The decoder\<close>

lemma hasMore_unread_rows:
  "reader_invariant r \<Longrightarrow> hasMore r = (has_more, r') \<Longrightarrow>
     reader_invariant r' \<and> unread_rows r' = unread_rows r \<and> (has_more \<longleftrightarrow> unread_rows r \<noteq> [])
     \<and> (has_more \<longrightarrow> stream r' \<noteq> [])"
proof (induction r rule: hasMore.induct)
  case (1 r)
  show ?case
  proof (cases "eof r \<or> objectCount r \<noteq> 0")
    case True
    with "1.prems" show ?thesis
      by (auto simp: hasMore.simps [of r] reader_invariant_def unread_rows_def split: if_splits)
  next
    case False
    with "1.prems" have step: "hasMore (readDataBlock r) = (has_more, r')"
      by (simp add: hasMore.simps [of r])
    from False "1.prems"(1) have inv: "reader_invariant (readDataBlock r)"
      and rows: "unread_rows (readDataBlock r) = unread_rows r"
      by (auto simp: reader_invariant_def readDataBlock_def unread_rows_def split: list.splits)
    from "1.IH" [OF _ _ inv step] False rows show ?thesis
      by auto
  qed
qed

lemma parseAvro_loop_unread_rows:
  "reader_invariant r \<Longrightarrow>
     parseAvro_loop deserializer r col = decode_in_file_order deserializer col (unread_rows r)"
proof (induction deserializer r col rule: parseAvro_loop.induct)
  case (1 deserializer file_reader col)
  obtain has_more r where more: "hasMore file_reader = (has_more, r)"
    by (cases "hasMore file_reader")
  from hasMore_unread_rows [OF "1.prems" more]
  have inv: "reader_invariant r" and rows: "unread_rows r = unread_rows file_reader"
    and iff: "has_more \<longleftrightarrow> unread_rows file_reader \<noteq> []"
    and nonempty: "has_more \<longrightarrow> stream r \<noteq> []"
    by simp_all
  show ?case
  proof (cases has_more)
    case False
    with more iff show ?thesis
      by (simp add: parseAvro_loop.simps [of deserializer file_reader col])
  next
    case True
    with nonempty obtain row rest where stream: "stream r = row # rest"
      by (cases "stream r") auto
    let ?r' = "decr r\<lparr>stream := rest\<rparr>"
    have decoded: "decode_datum (decr r) = Inr (row, ?r')"
      using stream by (simp add: decode_datum_def decr_def)
    have inv': "reader_invariant ?r'"
      using inv stream by (auto simp: reader_invariant_def decr_def split: if_splits)
    have rows': "unread_rows file_reader = row # unread_rows ?r'"
      using rows stream by (simp add: unread_rows_def decr_def)
    show ?thesis
    proof (cases "deserializeRow deserializer col row")
      case (Inl e)
      with more True decoded rows' show ?thesis
        by (simp add: parseAvro_loop.simps [of deserializer file_reader col])
    next
      case (Inr col')
      from "1.IH" [OF more [symmetric] True decoded refl Inr inv']
      have "parseAvro_loop deserializer ?r' col' = decode_in_file_order deserializer col' (unread_rows ?r')" .
      with more True decoded rows' Inr show ?thesis
        by (simp add: parseAvro_loop.simps [of deserializer file_reader col])
    qed
  qed
qed

lemma open_avro_init:
  assumes "open_avro (AvroBytes (AvroContainer root_node file_blocks)) = Inr file_reader"
  shows "dataSchema file_reader = root_node" "reader_invariant (init file_reader)"
    "unread_rows (init file_reader) = concat file_blocks"
  using assms
  by (auto simp: open_avro_def init_def readDataBlock_def reader_invariant_def unread_rows_def
        split: list.splits)

lemma parseAvro_in_file_order:
  assumes "open_avro (AvroBytes (AvroContainer root_node file_blocks)) = Inr file_reader"
  shows "parseAvro file_reader data_type field_name =
           and_then (make_AvroDeserializer data_type field_name root_node)
             (\<lambda>deserializer.
                and_then (decode_in_file_order deserializer (createColumn data_type) (concat file_blocks))
                  (\<lambda>col. Inr [col]))"
  using open_avro_init [OF assms]
  by (simp add: parseAvro_def parseAvro_loop_unread_rows)

lemma column_type_createColumn [simp]: "column_type (createColumn data_type) = data_type"
  by (induction data_type) (simp_all add: map_idI)

lemma column_size_createColumn [simp]: "column_size (createColumn data_type) = 0"
proof (induction data_type)
  case (DataTypeTuple elements)
  then show ?case by (cases elements) simp_all
qed simp_all

lemma insert_conforming:
  "conforms t d \<Longrightarrow> column_type c = avroNodeToDataType t \<Longrightarrow>
     \<exists>c'. insert_datum c d = Inr c' \<and> column_type c' = column_type c"
  "conforms_fields leaves ds \<Longrightarrow> map column_type cs = map (\<lambda>leaf. avroNodeToDataType (snd leaf)) leaves \<Longrightarrow>
     \<exists>cs'. insert_fields cs ds = Inr cs' \<and> map column_type cs' = map column_type cs"
proof (induction t d and leaves ds arbitrary: c and cs rule: conforms_conforms_fields.induct)
  case (1 i)
  then show ?case by (cases c) simp_all
next
  case (2 i)
  then show ?case by (cases c) simp_all
next
  case (3 s)
  then show ?case by (cases c) simp_all
next
  case (4 leaves ds)
  then obtain cs where c: "c = ColumnTuple cs"
    by (cases c) simp_all
  with 4 obtain cs' where "insert_fields cs ds = Inr cs'" "map column_type cs' = map column_type cs"
    by fastforce
  with c show ?case by simp
next
  case (7 leaf leaves d ds)
  then obtain c0 cs0 where cs: "cs = c0 # cs0"
    by (cases cs) simp_all
  with 7 obtain c0' where c0: "insert_datum c0 d = Inr c0'" "column_type c0' = column_type c0"
    by fastforce
  from cs 7 obtain cs0' where "insert_fields cs0 ds = Inr cs0'" "map column_type cs0' = map column_type cs0"
    by fastforce
  with cs c0 show ?case by simp
qed simp_all

lemma insert_datum_family:
  "insert_datum c d = Inr c' \<Longrightarrow> getDataType c' = getDataType c \<and> getFamilyName c' = getFamilyName c"
  by (cases c; cases d) (auto simp: and_then_def split: sum.splits)

lemma insertDefault_family:
  "getDataType (insertDefault c) = getDataType c \<and> getFamilyName (insertDefault c) = getFamilyName c"
  by (cases c) simp_all

lemma deserializeRow_family:
  "deserializeRow deserializer c row = Inr c' \<Longrightarrow>
     getDataType c' = getDataType c \<and> getFamilyName c' = getFamilyName c"
  by (auto simp: deserializeRow_def insertDefault_family
        split: AvroDeserializer.splits option.splits avro_datum.splits if_splits
        dest: insert_datum_family)

lemma decode_in_file_order_family:
  "decode_in_file_order deserializer c rows = Inr c' \<Longrightarrow>
     getDataType c' = getDataType c \<and> getFamilyName c' = getFamilyName c"
proof (induction rows arbitrary: c)
  case Nil
  then show ?case by simp
next
  case (Cons row rows)
  then obtain c1 where c1: "deserializeRow deserializer c row = Inr c1"
    "decode_in_file_order deserializer c1 rows = Inr c'"
    by (cases "deserializeRow deserializer c row") simp_all
  from Cons.IH [OF c1(2)] deserializeRow_family [OF c1(1)] show ?case
    by simp
qed

lemma createColumn_String_iff:
  "getDataType (createColumn data_type) = TypeIndex_String \<longleftrightarrow> data_type = DataTypeString"
  by (cases data_type) simp_all

lemma createColumn_Tuple_iff:
  "getDataType (createColumn data_type) = TypeIndex_Tuple \<longleftrightarrow> (\<exists>elements. data_type = DataTypeTuple elements)"
  by (cases data_type) simp_all

lemma avroNodeToDataType_String_iff:
  "avroNodeToDataType t = DataTypeString \<longleftrightarrow> t = AVRO_STRING"
  by (cases t) simp_all

lemma decode_strings:
  "map (string_field i) rows = map Some paths \<Longrightarrow>
     decode_in_file_order (RowAction (Some i)) (ColumnString xs) rows = Inr (ColumnString (xs @ paths))"
proof (induction rows arbitrary: xs paths)
  case Nil
  then show ?case by simp
next
  case (Cons row rows)
  then obtain p ps where paths: "paths = p # ps" "string_field i row = Some p"
    "map (string_field i) rows = map Some ps"
    by (cases paths) auto
  from paths(2) have "deserializeRow (RowAction (Some i)) (ColumnString xs) row = Inr (ColumnString (xs @ [p]))"
    by (cases row) (auto simp: deserializeRow_def split: if_splits avro_datum.splits)
  with Cons.IH [OF paths(3), of "xs @ [p]"] paths(1) show ?case
    by simp
qed

lemma insert_keeps_type:
  "insert_datum c d = Inr c' \<Longrightarrow> column_type c' = column_type c"
  "insert_fields cs ds = Inr cs' \<Longrightarrow> map column_type cs' = map column_type cs"
proof (induction c d and cs ds arbitrary: c' and cs' rule: insert_datum_insert_fields.induct)
  case (4 elements ds)
  from "4.prems" obtain elements' where inserted: "insert_fields elements ds = Inr elements'"
    and c': "c' = ColumnTuple elements'"
    by (cases "insert_fields elements ds") auto
  from "4.IH" [OF inserted] c' show ?case
    by simp
next
  case (7 c cs d ds)
  from "7.prems" obtain c1 where c1: "insert_datum c d = Inr c1"
    by (cases "insert_datum c d") auto
  with "7.prems" obtain cs1 where cs1: "insert_fields cs ds = Inr cs1" and cs': "cs' = c1 # cs1"
    by (cases "insert_fields cs ds") auto
  from "7.IH"(1) [OF c1] "7.IH"(2) [OF cs1] cs' show ?case
    by simp
qed simp_all

lemma insert_adds_a_row:
  "insert_datum c d = Inr c' \<Longrightarrow> has_rows (column_type c) \<Longrightarrow> column_size c' = Suc (column_size c)"
  "insert_fields cs ds = Inr cs' \<Longrightarrow> cs \<noteq> [] \<Longrightarrow> has_rows (column_type (hd cs)) \<Longrightarrow>
     cs' \<noteq> [] \<and> column_size (hd cs') = Suc (column_size (hd cs))"
proof (induction c d and cs ds arbitrary: c' and cs' rule: insert_datum_insert_fields.induct)
  case (4 elements ds)
  from "4.prems"(1) obtain elements' where inserted: "insert_fields elements ds = Inr elements'"
    and c': "c' = ColumnTuple elements'"
    by (cases "insert_fields elements ds") auto
  from "4.prems"(2) obtain e es where elements: "elements = e # es" and rows: "has_rows (column_type e)"
    by (cases elements) simp_all
  from "4.IH" [OF inserted] elements rows
  obtain e' es' where "elements' = e' # es'" "column_size e' = Suc (column_size e)"
    by (cases elements') simp_all
  with c' elements show ?case
    by simp
next
  case (7 c cs d ds)
  from "7.prems"(1) obtain c1 where c1: "insert_datum c d = Inr c1"
    by (cases "insert_datum c d") auto
  with "7.prems"(1) obtain cs1 where cs': "cs' = c1 # cs1"
    by (cases "insert_fields cs ds") auto
  from "7.IH"(1) [OF c1] "7.prems"(3) cs' show ?case
    by simp
qed simp_all

lemma insertDefault_keeps_type: "column_type (insertDefault c) = column_type c"
  by (induction c) (simp_all cong: map_cong)

lemma insertDefault_adds_a_row:
  "has_rows (column_type c) \<Longrightarrow> column_size (insertDefault c) = Suc (column_size c)"
proof (induction c)
  case (ColumnTuple elements)
  then show ?case by (cases elements) simp_all
qed simp_all

lemma deserializeRow_adds_a_row:
  assumes "deserializeRow deserializer c row = Inr c'" "has_rows (column_type c)"
  shows "column_type c' = column_type c \<and> column_size c' = Suc (column_size c)"
  using assms
  by (auto simp: deserializeRow_def insertDefault_keeps_type insertDefault_adds_a_row
        insert_keeps_type insert_adds_a_row
        split: AvroDeserializer.splits option.splits avro_datum.splits if_splits)

lemma decode_in_file_order_size:
  "decode_in_file_order deserializer c rows = Inr c' \<Longrightarrow> has_rows (column_type c) \<Longrightarrow>
     column_size c' = column_size c + length rows"
proof (induction rows arbitrary: c)
  case Nil
  then show ?case by simp
next
  case (Cons row rows)
  then obtain c1 where c1: "deserializeRow deserializer c row = Inr c1"
    "decode_in_file_order deserializer c1 rows = Inr c'"
    by (cases "deserializeRow deserializer c row") simp_all
  from deserializeRow_adds_a_row [OF c1(1) Cons.prems(2)] Cons.IH [OF c1(2)] Cons.prems(2)
  show ?case by simp
qed

lemma decode_data_files:
  assumes "t = AVRO_RECORD ((n, AVRO_STRING) # rest)"
    and "map column_type cs = map (\<lambda>leaf. avroNodeToDataType (snd leaf)) rest"
    and "map (file_path_field j t) rows = map Some paths"
  shows "\<exists>cs'. decode_in_file_order (RowAction (Some j)) (ColumnTuple (ColumnString xs # cs)) rows
                 = Inr (ColumnTuple (ColumnString (xs @ paths) # cs'))"
  using assms(2,3)
proof (induction rows arbitrary: xs cs paths)
  case Nil
  then show ?case by simp
next
  case (Cons row rows)
  then obtain p ps where paths: "paths = p # ps" "file_path_field j t row = Some p"
    "map (file_path_field j t) rows = map Some ps"
    by (cases paths) auto
  from paths(2) obtain ds fs where row: "row = DRecord ds" "j < length ds"
    "ds ! j = DRecord (DString p # fs)" "conforms t (ds ! j)"
    by (cases row) (auto split: if_splits avro_datum.splits list.splits)
  from row(3,4) assms(1) have "conforms_fields rest fs"
    by simp
  from insert_conforming(2) [OF this Cons.prems(1)]
  obtain cs1 where cs1: "insert_fields cs fs = Inr cs1" "map column_type cs1 = map column_type cs"
    by blast
  have step: "deserializeRow (RowAction (Some j)) (ColumnTuple (ColumnString xs # cs)) row
                = Inr (ColumnTuple (ColumnString (xs @ [p]) # cs1))"
    using row cs1 by (simp add: deserializeRow_def)
  from cs1(2) Cons.prems(1) have "map column_type cs1 = map (\<lambda>leaf. avroNodeToDataType (snd leaf)) rest"
    by simp
  from Cons.IH [OF this paths(3), of "xs @ [p]"] step paths(1) show ?case
    by simp
qed

lemma field_index_Some:
  "field_index name leaves = Some i \<Longrightarrow> i < length leaves \<and> fst (leaves ! i) = name"
proof (induction leaves arbitrary: i)
  case Nil
  then show ?case by simp
next
  case (Cons leaf leaves)
  then show ?case
    by (cases "fst leaf = name") (auto simp: nth_Cons split: nat.splits)
qed

lemma conforms_fields_nth:
  "conforms_fields leaves ds \<Longrightarrow> i < length leaves \<Longrightarrow>
     i < length ds \<and> conforms (snd (leaves ! i)) (ds ! i)"
proof (induction leaves arbitrary: ds i)
  case Nil
  then show ?case by simp
next
  case (Cons leaf leaves)
  then obtain d ds' where "ds = d # ds'"
    by (cases ds) simp_all
  with Cons show ?case by (cases i) simp_all
qed

lemma those_map_Some: "those xs = Some ys \<longleftrightarrow> xs = map Some ys"
proof (induction xs arbitrary: ys)
  case Nil
  then show ?case by auto
next
  case (Cons x xs)
  then show ?case
    by (cases x; cases ys) (auto split: option.splits)
qed

lemma getManifestFiles_named_column:
  assumes "createReadBuffer helper manifest_list configuration
             = Inr (AvroBytes (AvroContainer (AVRO_RECORD leaves) file_blocks))"
    and "leaves \<noteq> []"
    and "snd (leaves ! 0) = AVRO_STRING"
    and "field_index ''manifest_path'' leaves = Some j"
    and "snd (leaves ! j) = AVRO_STRING"
    and "map (string_field j) (concat file_blocks) = map Some paths"
  shows "getManifestFiles helper manifest_list configuration
           = Inr (map (\<lambda>file_path.
                         path_append (path_append (url_key configuration) metadata_directory)
                           (filename file_path)) paths)"
proof -
  obtain file_reader where reader:
    "open_avro (AvroBytes (AvroContainer (AVRO_RECORD leaves) file_blocks)) = Inr file_reader"
    by (simp add: open_avro_def)
  have schema: "dataSchema file_reader = AVRO_RECORD leaves"
    using open_avro_init(1) [OF reader] .
  have leaf: "leafAt (AVRO_RECORD leaves) 0 = Inr AVRO_STRING"
    using assms(2,3) by (simp add: leafAt_def)
  have deserializer: "make_AvroDeserializer DataTypeString ''manifest_path'' (AVRO_RECORD leaves)
                        = Inr (RowAction (Some j))"
    using assms(4,5) by (simp add: make_AvroDeserializer_def)
  have "parseAvro file_reader DataTypeString ''manifest_path'' = Inr [ColumnString paths]"
    using parseAvro_in_file_order [OF reader, of DataTypeString "''manifest_path''"]
      deserializer decode_strings [OF assms(6), of "[]"]
    by simp
  with assms(1) reader schema leaf show ?thesis
    by (simp add: getManifestFiles_def at_0_def)
qed

lemma manifest_file_keys_named_column:
  assumes "createReadBuffer helper manifest_file configuration
             = Inr (AvroBytes (AvroContainer (AVRO_RECORD leaves) file_blocks))"
    and "2 < length leaves"
    and "field_index ''data_file'' leaves = Some j"
    and "snd (leaves ! j) = AVRO_RECORD ((n, AVRO_STRING) # rest)"
    and "avroNodeToDataType (snd (leaves ! 2)) = avroNodeToDataType (snd (leaves ! j))"
    and "map (file_path_field j (snd (leaves ! j))) (concat file_blocks) = map Some paths"
  shows "manifest_file_keys helper configuration keys manifest_file
           = Inr (keys @ map (\<lambda>file_path.
                                path_append (filename (parent_path file_path)) (filename file_path))
                            paths)"
proof -
  let ?t = "AVRO_RECORD ((n, AVRO_STRING) # rest)"
  let ?cs = "map createColumn (map (\<lambda>leaf. avroNodeToDataType (snd leaf)) rest)"
  obtain file_reader where reader:
    "open_avro (AvroBytes (AvroContainer (AVRO_RECORD leaves) file_blocks)) = Inr file_reader"
    by (simp add: open_avro_def)
  have schema: "dataSchema file_reader = AVRO_RECORD leaves"
    using open_avro_init(1) [OF reader] .
  have leaf: "leafAt (AVRO_RECORD leaves) 2 = Inr (snd (leaves ! 2))"
    using assms(2) by (simp add: leafAt_def)
  have data_type: "avroNodeToDataType (snd (leaves ! 2)) = avroNodeToDataType ?t"
    using assms(4,5) by simp
  have deserializer: "make_AvroDeserializer (avroNodeToDataType ?t) ''data_file'' (AVRO_RECORD leaves)
                        = Inr (RowAction (Some j))"
    using assms(3,4) by (simp add: make_AvroDeserializer_def)
  have column: "createColumn (avroNodeToDataType ?t) = ColumnTuple (ColumnString [] # ?cs)"
    by simp
  have types: "map column_type ?cs = map (\<lambda>leaf. avroNodeToDataType (snd leaf)) rest"
    by (simp add: comp_def)
  from decode_data_files [OF refl types, of j n "concat file_blocks" paths "[]"] assms(4,6)
  obtain cs' where "decode_in_file_order (RowAction (Some j)) (ColumnTuple (ColumnString [] # ?cs))
                      (concat file_blocks) = Inr (ColumnTuple (ColumnString paths # cs'))"
    by auto
  then have "parseAvro file_reader (avroNodeToDataType ?t) ''data_file''
               = Inr [ColumnTuple (ColumnString paths # cs')]"
    using parseAvro_in_file_order [OF reader, of "avroNodeToDataType ?t" "''data_file''"]
      deserializer column
    by (simp del: avroNodeToDataType.simps createColumn.simps)
  with assms(1) reader schema leaf data_type show ?thesis
    by (simp add: manifest_file_keys_def at_0_def getColumnPtr_def
          del: avroNodeToDataType.simps)
qed

text \<open>
  C8. \<open>parseAvro\<close> on a container decodes the rows of all its blocks, each row once and
  in file order: it is the fold \<open>decode_in_file_order\<close> over the concatenation of the
  blocks. So whenever it returns, the column has as many rows as the file (for every
  data type whose column counts rows); and rows that carry the strings \<open>paths\<close> in the
  \<^verbatim>\<open>manifest_path\<close> field decode to exactly \<open>paths\<close>, in the original order.
\<close>

theorem parseAvro_decodes_every_row:
  assumes "open_avro (AvroBytes (AvroContainer root_node file_blocks)) = Inr file_reader"
  shows "parseAvro file_reader data_type field_name
           = and_then (make_AvroDeserializer data_type field_name root_node)
               (\<lambda>deserializer.
                  and_then (decode_in_file_order deserializer (createColumn data_type)
                              (concat file_blocks))
                    (\<lambda>col. Inr [col]))
         \<and> (\<forall>columns. parseAvro file_reader data_type field_name = Inr columns \<and> has_rows data_type
               \<longrightarrow> (\<exists>col. columns = [col] \<and> column_size col = length (concat file_blocks)))
         \<and> (\<forall>leaves i paths.
               root_node = AVRO_RECORD leaves \<and> field_index field_name leaves = Some i
               \<and> snd (leaves ! i) = AVRO_STRING
               \<and> map (string_field i) (concat file_blocks) = map Some paths
               \<longrightarrow> parseAvro file_reader DataTypeString field_name = Inr [ColumnString paths])"
proof (intro conjI allI impI)
  show eq: "parseAvro file_reader data_type field_name
           = and_then (make_AvroDeserializer data_type field_name root_node)
               (\<lambda>deserializer.
                  and_then (decode_in_file_order deserializer (createColumn data_type)
                              (concat file_blocks))
                    (\<lambda>col. Inr [col]))"
    by (rule parseAvro_in_file_order [OF assms])
  fix columns
  assume a: "parseAvro file_reader data_type field_name = Inr columns \<and> has_rows data_type"
  with eq obtain deserializer where "make_AvroDeserializer data_type field_name root_node = Inr deserializer"
    by (cases "make_AvroDeserializer data_type field_name root_node") auto
  with eq a obtain col where col: "decode_in_file_order deserializer (createColumn data_type)
                              (concat file_blocks) = Inr col" "columns = [col]"
    by (cases "decode_in_file_order deserializer (createColumn data_type) (concat file_blocks)") auto
  from decode_in_file_order_size [OF col(1)] a col(2)
  show "\<exists>col. columns = [col] \<and> column_size col = length (concat file_blocks)"
    by simp
next
  fix leaves i paths
  assume a: "root_node = AVRO_RECORD leaves \<and> field_index field_name leaves = Some i
               \<and> snd (leaves ! i) = AVRO_STRING
               \<and> map (string_field i) (concat file_blocks) = map Some paths"
  then have "make_AvroDeserializer DataTypeString field_name root_node = Inr (RowAction (Some i))"
    by (simp add: make_AvroDeserializer_def)
  moreover from a have "decode_in_file_order (RowAction (Some i)) (ColumnString []) (concat file_blocks)
                          = Inr (ColumnString paths)"
    using decode_strings [of i "concat file_blocks" paths "[]"] by simp
  ultimately show "parseAvro file_reader DataTypeString field_name = Inr [ColumnString paths]"
    using parseAvro_in_file_order [OF assms, of DataTypeString field_name] by simp
qed

theorem parseAvro_decodes_every_row_witness:
  "parseAvro
     \<lparr>dataSchema = AVRO_RECORD [(''manifest_path'', AVRO_STRING), (''manifest_length'', AVRO_LONG)],
      objectCount = 0, stream = [],
      pending = [[DRecord [DString ''/w/tbl/metadata/m0.avro'', DLong 5813],
                  DRecord [DString ''/w/tbl/metadata/m1.avro'', DLong 6001]],
                 [],
                 [DRecord [DString ''/w/tbl/metadata/m2.avro'', DLong 5990]]],
      eof = False\<rparr>
     DataTypeString ''manifest_path''
   = Inr [ColumnString [''/w/tbl/metadata/m0.avro'', ''/w/tbl/metadata/m1.avro'',
                        ''/w/tbl/metadata/m2.avro'']]"
proof -
  let ?leaves = "[(''manifest_path'', AVRO_STRING), (''manifest_length'', AVRO_LONG)]"
  let ?blocks = "[[DRecord [DString ''/w/tbl/metadata/m0.avro'', DLong 5813],
                  DRecord [DString ''/w/tbl/metadata/m1.avro'', DLong 6001]],
                 [],
                 [DRecord [DString ''/w/tbl/metadata/m2.avro'', DLong 5990]]]"
  let ?reader = "\<lparr>dataSchema = AVRO_RECORD ?leaves, objectCount = 0, stream = [],
                  pending = ?blocks, eof = False\<rparr>"
  have opened: "open_avro (AvroBytes (AvroContainer (AVRO_RECORD ?leaves) ?blocks)) = Inr ?reader"
    by (simp add: open_avro_def)
  have rows: "AVRO_RECORD ?leaves = AVRO_RECORD ?leaves \<and> field_index ''manifest_path'' ?leaves = Some 0
      \<and> snd (?leaves ! 0) = AVRO_STRING
      \<and> map (string_field 0) (concat ?blocks)
          = map Some [''/w/tbl/metadata/m0.avro'', ''/w/tbl/metadata/m1.avro'', ''/w/tbl/metadata/m2.avro'']"
    by simp
  from parseAvro_decodes_every_row [OF opened, of DataTypeString "''manifest_path''",
         THEN conjunct2, THEN conjunct2, THEN spec, THEN spec, THEN spec, THEN mp, OF rows]
  show ?thesis .
qed

lemma deserializeRow_keeps_type:
  "deserializeRow deserializer c row = Inr c' \<Longrightarrow> column_type c' = column_type c"
  by (auto simp: deserializeRow_def insertDefault_keeps_type insert_keeps_type
        split: AvroDeserializer.splits option.splits avro_datum.splits if_splits)

lemma decode_keeps_type:
  "decode_in_file_order deserializer c rows = Inr c' \<Longrightarrow> column_type c' = column_type c"
proof (induction rows arbitrary: c)
  case Nil
  then show ?case by simp
next
  case (Cons row rows)
  then obtain c1 where c1: "deserializeRow deserializer c row = Inr c1"
    "decode_in_file_order deserializer c1 rows = Inr c'"
    by (cases "deserializeRow deserializer c row") simp_all
  from Cons.IH [OF c1(2)] deserializeRow_keeps_type [OF c1(1)] show ?case
    by simp
qed

lemma family_by_type:
  "column_type c = column_type c' \<Longrightarrow>
     getDataType c = getDataType c' \<and> getFamilyName c = getFamilyName c'"
  by (cases c; cases c') simp_all

lemma parseAvro_column:
  assumes "open_avro (AvroBytes (AvroContainer root_node file_blocks)) = Inr file_reader"
    and "parseAvro file_reader data_type field_name = Inr columns"
  shows "\<exists>col. columns = [col] \<and> column_type col = data_type"
proof -
  note eq = parseAvro_in_file_order [OF assms(1), of data_type field_name]
  with assms(2) obtain deserializer where
    "make_AvroDeserializer data_type field_name root_node = Inr deserializer"
    by (cases "make_AvroDeserializer data_type field_name root_node") auto
  with eq assms(2) obtain col where col:
    "decode_in_file_order deserializer (createColumn data_type) (concat file_blocks) = Inr col"
    "columns = [col]"
    by (cases "decode_in_file_order deserializer (createColumn data_type) (concat file_blocks)") auto
  from decode_keeps_type [OF col(1)] col(2) show ?thesis
    by simp
qed

lemma decode_defaults:
  "\<exists>c'. decode_in_file_order (RowAction None) c rows = Inr c'"
  by (induction rows arbitrary: c) (simp_all add: deserializeRow_def)

lemma decode_conforming:
  assumes "list_all (conforms (AVRO_RECORD leaves)) rows" and "j < length leaves"
    and "column_type c = avroNodeToDataType (snd (leaves ! j))"
  shows "\<exists>c'. decode_in_file_order (RowAction (Some j)) c rows = Inr c'"
  using assms(1,3)
proof (induction rows arbitrary: c)
  case Nil
  then show ?case by simp
next
  case (Cons row rows)
  from Cons.prems(1) obtain ds where row: "row = DRecord ds" "conforms_fields leaves ds"
    by (cases row) simp_all
  from conforms_fields_nth [OF row(2) assms(2)]
  have j: "j < length ds" "conforms (snd (leaves ! j)) (ds ! j)"
    by simp_all
  from insert_conforming(1) [OF j(2) Cons.prems(2)]
  obtain c1 where c1: "insert_datum c (ds ! j) = Inr c1" "column_type c1 = column_type c"
    by blast
  then have step: "deserializeRow (RowAction (Some j)) c row = Inr c1"
    using row(1) j(1) by (simp add: deserializeRow_def)
  from Cons.prems c1(2) have "\<exists>c'. decode_in_file_order (RowAction (Some j)) c1 rows = Inr c'"
    by (intro Cons.IH) simp_all
  with step show ?case by simp
qed

text \<open>
  With rows of the schema's type, the only way \<open>parseAvro\<close> fails is the deserializer
  refusing the column's type for the named field.
\<close>

lemma parseAvro_conforming:
  assumes "open_avro (AvroBytes (AvroContainer (AVRO_RECORD leaves) file_blocks)) = Inr file_reader"
    and "list_all (conforms (AVRO_RECORD leaves)) (concat file_blocks)"
  shows "(\<exists>columns. parseAvro file_reader data_type field_name = Inr columns)
         \<or> (\<exists>expected got. parseAvro file_reader data_type field_name
                = Inl (ILLEGAL_COLUMN field_name expected got))"
proof -
  note eq = parseAvro_in_file_order [OF assms(1), of data_type field_name]
  show ?thesis
  proof (cases "field_index field_name leaves")
    case None
    then have "make_AvroDeserializer data_type field_name (AVRO_RECORD leaves) = Inr (RowAction None)"
      by (simp add: make_AvroDeserializer_def)
    with eq decode_defaults [of "createColumn data_type" "concat file_blocks"] show ?thesis
      by auto
  next
    case (Some j)
    show ?thesis
    proof (cases "avroNodeToDataType (snd (leaves ! j)) = data_type")
      case True
      with Some have "make_AvroDeserializer data_type field_name (AVRO_RECORD leaves)
                        = Inr (RowAction (Some j))"
        by (simp add: make_AvroDeserializer_def)
      moreover from field_index_Some [OF Some] have "j < length leaves"
        by simp
      from decode_conforming [OF assms(2) this, of "createColumn data_type"] True
      have "\<exists>c'. decode_in_file_order (RowAction (Some j)) (createColumn data_type)
                    (concat file_blocks) = Inr c'"
        by simp
      ultimately show ?thesis
        using eq by auto
    next
      case False
      with Some eq show ?thesis
        by (simp add: make_AvroDeserializer_def)
    qed
  qed
qed

text \<open>
  C6. When the type resolved for the projected column of a manifest list (the type of
  the first top-level field) is not a string, \<open>getManifestFiles\<close> returns no paths at
  all: it fails. Whenever the decoder produced the column, the failure is
  \<open>ILLEGAL_COLUMN\<close> naming the expected type \<^verbatim>\<open>String\<close> and the column's family; and
  with rows that have the type of the schema, every failure is an \<open>ILLEGAL_COLUMN\<close> for
  \<^verbatim>\<open>manifest_path\<close> that names two kinds.
\<close>

theorem getManifestFiles_type_mismatch:
  assumes "createReadBuffer helper manifest_list configuration
             = Inr (AvroBytes (AvroContainer (AVRO_RECORD leaves) file_blocks))"
    and "leaves \<noteq> []"
    and "snd (leaves ! 0) \<noteq> AVRO_STRING"
  shows "(\<exists>e. getManifestFiles helper manifest_list configuration = Inl e)
         \<and> (\<forall>file_reader columns.
               open_avro (AvroBytes (AvroContainer (AVRO_RECORD leaves) file_blocks)) = Inr file_reader
               \<and> parseAvro file_reader (avroNodeToDataType (snd (leaves ! 0))) ''manifest_path'' = Inr columns
               \<longrightarrow> getManifestFiles helper manifest_list configuration
                     = Inl (ILLEGAL_COLUMN ''manifest_path'' ''String''
                             (getFamilyName (createColumn (avroNodeToDataType (snd (leaves ! 0)))))))
         \<and> (list_all (conforms (AVRO_RECORD leaves)) (concat file_blocks)
               \<longrightarrow> (\<exists>expected got. getManifestFiles helper manifest_list configuration
                       = Inl (ILLEGAL_COLUMN ''manifest_path'' expected got)))"
proof -
  let ?data_type = "avroNodeToDataType (snd (leaves ! 0))"
  obtain file_reader where reader:
    "open_avro (AvroBytes (AvroContainer (AVRO_RECORD leaves) file_blocks)) = Inr file_reader"
    by (simp add: open_avro_def)
  have schema: "dataSchema file_reader = AVRO_RECORD leaves"
    using open_avro_init(1) [OF reader] .
  have leaf: "leafAt (AVRO_RECORD leaves) 0 = Inr (snd (leaves ! 0))"
    using assms(2) by (simp add: leafAt_def)
  have not_string: "?data_type \<noteq> DataTypeString"
    using assms(3) by (simp add: avroNodeToDataType_String_iff)
  have unfolded: "getManifestFiles helper manifest_list configuration
      = and_then (parseAvro file_reader ?data_type ''manifest_path'')
          (\<lambda>columns. and_then (at_0 columns)
             (\<lambda>col. if getDataType col = TypeIndex_String then
                       Inr (map (\<lambda>file_path.
                              path_append (path_append (url_key configuration) metadata_directory)
                                (filename file_path)) (string_data col))
                     else Inl (ILLEGAL_COLUMN ''manifest_path'' ''String'' (getFamilyName col))))"
    using assms(1) reader schema leaf by (simp add: getManifestFiles_def)
  have decoded: "getManifestFiles helper manifest_list configuration
                   = Inl (ILLEGAL_COLUMN ''manifest_path'' ''String''
                           (getFamilyName (createColumn ?data_type)))"
    if "parseAvro file_reader ?data_type ''manifest_path'' = Inr columns" for columns
  proof -
    from parseAvro_column [OF reader that] obtain col where col:
      "columns = [col]" "column_type col = ?data_type"
      by blast
    from col(2) have "column_type col = column_type (createColumn ?data_type)"
      by simp
    from family_by_type [OF this] not_string
    have "getDataType col \<noteq> TypeIndex_String"
      "getFamilyName col = getFamilyName (createColumn ?data_type)"
      by (simp_all add: createColumn_String_iff)
    with unfolded that col(1) show ?thesis
      by (simp add: at_0_def)
  qed
  have fails: "\<exists>e. getManifestFiles helper manifest_list configuration = Inl e"
  proof (cases "parseAvro file_reader ?data_type ''manifest_path''")
    case (Inl e)
    with unfolded show ?thesis by simp
  next
    case (Inr columns)
    from decoded [OF this] show ?thesis by blast
  qed
  have typed: "\<exists>expected got. getManifestFiles helper manifest_list configuration
                       = Inl (ILLEGAL_COLUMN ''manifest_path'' expected got)"
    if "list_all (conforms (AVRO_RECORD leaves)) (concat file_blocks)"
    using parseAvro_conforming [OF reader that, of ?data_type "''manifest_path''"] decoded unfolded
    by auto
  from fails typed decoded reader show ?thesis
    by auto
qed

theorem getManifestFiles_type_mismatch_witness:
  "getManifestFiles (table_helper mistyped_table) ''tbl/metadata/snap-1.avro'' \<lparr>url_key = ''tbl''\<rparr>
     = Inl (ILLEGAL_COLUMN ''manifest_path'' ''String'' ''Int64'')"
proof -
  let ?leaves = "[(''manifest_path'', AVRO_LONG), (''manifest_length'', AVRO_LONG)]"
  let ?blocks = "[[DRecord [DLong 17, DLong 5813], DRecord [DLong 18, DLong 6001]]]"
  let ?reader = "\<lparr>dataSchema = AVRO_RECORD ?leaves, objectCount = 0, stream = [],
                  pending = ?blocks, eof = False\<rparr>"
  have h1: "createReadBuffer (table_helper mistyped_table) ''tbl/metadata/snap-1.avro''
              \<lparr>url_key = ''tbl''\<rparr> = Inr (AvroBytes (AvroContainer (AVRO_RECORD ?leaves) ?blocks))"
    by code_simp
  have h2: "?leaves \<noteq> []"
    by simp
  have h3: "snd (?leaves ! 0) \<noteq> AVRO_STRING"
    by simp
  have h4: "open_avro (AvroBytes (AvroContainer (AVRO_RECORD ?leaves) ?blocks)) = Inr ?reader
            \<and> parseAvro ?reader (avroNodeToDataType (snd (?leaves ! 0))) ''manifest_path''
                = Inr [ColumnInt64 [17, 18]]"
    by code_simp
  have family: "getFamilyName (createColumn (avroNodeToDataType (snd (?leaves ! 0)))) = ''Int64''"
    by simp
  from getManifestFiles_type_mismatch [OF h1 h2 h3, THEN conjunct2, THEN conjunct1,
         THEN spec, THEN spec, THEN mp, OF h4]
  show ?thesis
    unfolding family .
qed

lemma manifest_file_keys_from_empty:
  "manifest_file_keys helper configuration keys manifest_file
     = and_then (manifest_file_keys helper configuration [] manifest_file) (\<lambda>ks. Inr (keys @ ks))"
  unfolding manifest_file_keys_def
  by (simp add: and_then_def split: sum.splits)

lemma getFilesForRead_loop_fails:
  assumes "manifest_file \<in> set manifest_files"
    and "manifest_file_keys helper configuration [] manifest_file = Inl e"
  shows "\<exists>e'. getFilesForRead_loop helper configuration keys manifest_files = Inl e'"
  using assms(1)
proof (induction manifest_files arbitrary: keys)
  case Nil
  then show ?case by simp
next
  case (Cons m ms)
  show ?case
  proof (cases "manifest_file_keys helper configuration keys m")
    case (Inl e')
    then show ?thesis by simp
  next
    case (Inr keys')
    with assms(2) have "m \<noteq> manifest_file"
      using manifest_file_keys_from_empty [of helper configuration keys manifest_file] by auto
    with Cons.prems have "manifest_file \<in> set ms" by simp
    from Cons.IH [OF this, of keys'] Inr show ?thesis by simp
  qed
qed

lemma getFilesForRead_loop_first_failure:
  assumes "\<forall>m \<in> set earlier. \<exists>ks. manifest_file_keys helper configuration [] m = Inr ks"
    and "manifest_file_keys helper configuration [] manifest_file = Inl e"
  shows "getFilesForRead_loop helper configuration keys (earlier @ manifest_file # later) = Inl e"
  using assms(1)
proof (induction earlier arbitrary: keys)
  case Nil
  with assms(2) show ?case
    using manifest_file_keys_from_empty [of helper configuration keys manifest_file] by simp
next
  case (Cons m ms)
  then obtain ks where "manifest_file_keys helper configuration [] m = Inr ks"
    by auto
  then have "manifest_file_keys helper configuration keys m = Inr (keys @ ks)"
    using manifest_file_keys_from_empty [of helper configuration keys m] by simp
  with Cons show ?case by simp
qed

lemma column_type_Tuple:
  "column_type col = DataTypeTuple (t0 # ts) \<Longrightarrow>
     \<exists>c0 cs. col = ColumnTuple (c0 # cs) \<and> column_type c0 = t0"
  by (cases col) auto

lemma avroNodeToDataType_Tuple_iff:
  "(\<exists>elements. avroNodeToDataType t = DataTypeTuple elements) \<longleftrightarrow> (\<exists>sub. t = AVRO_RECORD sub)"
  by (cases t) simp_all

lemma manifest_file_keys_mismatch:
  assumes "createReadBuffer helper manifest_file configuration
             = Inr (AvroBytes (AvroContainer (AVRO_RECORD leaves) file_blocks))"
    and "2 < length leaves"
    and "(\<forall>sub. snd (leaves ! 2) \<noteq> AVRO_RECORD sub)
         \<or> (\<exists>n first rest. snd (leaves ! 2) = AVRO_RECORD ((n, first) # rest) \<and> first \<noteq> AVRO_STRING)"
    and "open_avro (AvroBytes (AvroContainer (AVRO_RECORD leaves) file_blocks)) = Inr file_reader"
  shows "\<exists>e. manifest_file_keys helper configuration [] manifest_file = Inl e"
    and "parseAvro file_reader (avroNodeToDataType (snd (leaves ! 2))) ''data_file'' = Inr columns
         \<Longrightarrow> manifest_file_keys helper configuration [] manifest_file
               = Inl (case snd (leaves ! 2) of
                        AVRO_RECORD ((n, first) # rest) \<Rightarrow>
                          ILLEGAL_COLUMN ''file_path'' ''String''
                            (getFamilyName (createColumn (avroNodeToDataType first)))
                      | other \<Rightarrow>
                          ILLEGAL_COLUMN ''data_file'' ''Tuple''
                            (getFamilyName (createColumn (avroNodeToDataType other))))"
proof -
  let ?t = "snd (leaves ! 2)"
  let ?data_type = "avroNodeToDataType ?t"
  let ?mismatch = "case ?t of
                        AVRO_RECORD ((n, first) # rest) \<Rightarrow>
                          ILLEGAL_COLUMN ''file_path'' ''String''
                            (getFamilyName (createColumn (avroNodeToDataType first)))
                      | other \<Rightarrow>
                          ILLEGAL_COLUMN ''data_file'' ''Tuple''
                            (getFamilyName (createColumn (avroNodeToDataType other)))"
  have schema: "dataSchema file_reader = AVRO_RECORD leaves"
    using open_avro_init(1) [OF assms(4)] .
  have leaf: "leafAt (AVRO_RECORD leaves) 2 = Inr ?t"
    using assms(2) by (simp add: leafAt_def)
  have unfolded: "manifest_file_keys helper configuration [] manifest_file
      = and_then (parseAvro file_reader ?data_type ''data_file'')
          (\<lambda>columns. and_then (at_0 columns)
             (\<lambda>col. if getDataType col = TypeIndex_Tuple then
                       and_then (getColumnPtr col 0)
                         (\<lambda>col_str.
                            if getDataType col_str = TypeIndex_String then
                              Inr ([] @ map (\<lambda>file_path.
                                     path_append (filename (parent_path file_path)) (filename file_path))
                                   (string_data col_str))
                            else Inl (ILLEGAL_COLUMN ''file_path'' ''String'' (getFamilyName col_str)))
                     else Inl (ILLEGAL_COLUMN ''data_file'' ''Tuple'' (getFamilyName col))))"
    using assms(1,4) schema leaf by (simp add: manifest_file_keys_def)
  have decoded: "manifest_file_keys helper configuration [] manifest_file = Inl ?mismatch"
    if parsed: "parseAvro file_reader ?data_type ''data_file'' = Inr columns" for columns
  proof -
    from parseAvro_column [OF assms(4) parsed] obtain col where col:
      "columns = [col]" "column_type col = ?data_type"
      by blast
    from assms(3) show ?thesis
    proof
      assume primitive: "\<forall>sub. ?t \<noteq> AVRO_RECORD sub"
      then have "\<not> (\<exists>elements. ?data_type = DataTypeTuple elements)"
        by (simp add: avroNodeToDataType_Tuple_iff)
      moreover from col(2) have "column_type col = column_type (createColumn ?data_type)"
        by simp
      note family_by_type [OF this]
      ultimately have "getDataType col \<noteq> TypeIndex_Tuple"
        "getFamilyName col = getFamilyName (createColumn ?data_type)"
        by (simp_all add: createColumn_Tuple_iff)
      moreover from primitive have "?mismatch = ILLEGAL_COLUMN ''data_file'' ''Tuple''
                            (getFamilyName (createColumn ?data_type))"
        by (cases ?t) simp_all
      ultimately show ?thesis
        using unfolded parsed col(1) by (simp add: at_0_def)
    next
      assume "\<exists>n first rest. ?t = AVRO_RECORD ((n, first) # rest) \<and> first \<noteq> AVRO_STRING"
      then obtain n first rest where t: "?t = AVRO_RECORD ((n, first) # rest)"
        and first: "first \<noteq> AVRO_STRING"
        by blast
      from col(2) t have "column_type col
            = DataTypeTuple (avroNodeToDataType first # map (\<lambda>leaf. avroNodeToDataType (snd leaf)) rest)"
        by simp
      from column_type_Tuple [OF this] obtain c0 cs where c0: "col = ColumnTuple (c0 # cs)"
        "column_type c0 = avroNodeToDataType first"
        by blast
      from c0(2) have "column_type c0 = column_type (createColumn (avroNodeToDataType first))"
        by simp
      from family_by_type [OF this] first
      have "getDataType c0 \<noteq> TypeIndex_String"
        "getFamilyName c0 = getFamilyName (createColumn (avroNodeToDataType first))"
        by (simp_all add: createColumn_String_iff avroNodeToDataType_String_iff)
      moreover from t have "?mismatch = ILLEGAL_COLUMN ''file_path'' ''String''
                            (getFamilyName (createColumn (avroNodeToDataType first)))"
        by simp
      ultimately show ?thesis
        using unfolded parsed col(1) c0(1) by (simp add: at_0_def getColumnPtr_def)
    qed
  qed
  show "\<exists>e. manifest_file_keys helper configuration [] manifest_file = Inl e"
  proof (cases "parseAvro file_reader ?data_type ''data_file''")
    case (Inl e)
    with unfolded show ?thesis by simp
  next
    case (Inr columns)
    from decoded [OF this] show ?thesis by blast
  qed
  show "manifest_file_keys helper configuration [] manifest_file = Inl ?mismatch"
    if "parseAvro file_reader ?data_type ''data_file'' = Inr columns"
    using decoded [OF that] .
qed

text \<open>
  C7. When, for one of the manifest files, the type resolved for the projected column
  (the type of the third top-level field) is not a record, or is a record whose first
  field is not a string, \<open>getFilesForRead\<close> fails as a whole: no keys are returned,
  whatever the manifest files before it gave. When the files before it were read and the
  decoder produced the column, the failure is the \<open>ILLEGAL_COLUMN\<close> of the source:
  \<^verbatim>\<open>data_file\<close> expected as \<^verbatim>\<open>Tuple\<close>, or \<^verbatim>\<open>file_path\<close> expected as \<^verbatim>\<open>String\<close>.
\<close>

theorem getFilesForRead_type_mismatch:
  assumes "createReadBuffer helper manifest_file configuration
             = Inr (AvroBytes (AvroContainer (AVRO_RECORD leaves) file_blocks))"
    and "2 < length leaves"
    and "(\<forall>sub. snd (leaves ! 2) \<noteq> AVRO_RECORD sub)
         \<or> (\<exists>n first rest. snd (leaves ! 2) = AVRO_RECORD ((n, first) # rest) \<and> first \<noteq> AVRO_STRING)"
    and "manifest_file \<in> set manifest_files"
  shows "(\<exists>e. getFilesForRead helper manifest_files configuration = Inl e)
         \<and> (\<forall>earlier later file_reader columns.
               manifest_files = earlier @ manifest_file # later
               \<and> (\<forall>m \<in> set earlier. \<exists>ks. manifest_file_keys helper configuration [] m = Inr ks)
               \<and> open_avro (AvroBytes (AvroContainer (AVRO_RECORD leaves) file_blocks)) = Inr file_reader
               \<and> parseAvro file_reader (avroNodeToDataType (snd (leaves ! 2))) ''data_file'' = Inr columns
               \<longrightarrow> getFilesForRead helper manifest_files configuration
                     = Inl (case snd (leaves ! 2) of
                              AVRO_RECORD ((n, first) # rest) \<Rightarrow>
                                ILLEGAL_COLUMN ''file_path'' ''String''
                                  (getFamilyName (createColumn (avroNodeToDataType first)))
                            | other \<Rightarrow>
                                ILLEGAL_COLUMN ''data_file'' ''Tuple''
                                  (getFamilyName (createColumn (avroNodeToDataType other)))))"
proof (intro conjI allI impI)
  obtain file_reader where reader:
    "open_avro (AvroBytes (AvroContainer (AVRO_RECORD leaves) file_blocks)) = Inr file_reader"
    by (simp add: open_avro_def)
  from manifest_file_keys_mismatch(1) [OF assms(1,2,3) reader]
  obtain e where "manifest_file_keys helper configuration [] manifest_file = Inl e"
    by blast
  from getFilesForRead_loop_fails [OF assms(4) this]
  show "\<exists>e. getFilesForRead helper manifest_files configuration = Inl e"
    by (simp add: getFilesForRead_def)
next
  fix earlier later file_reader columns
  assume a: "manifest_files = earlier @ manifest_file # later
               \<and> (\<forall>m \<in> set earlier. \<exists>ks. manifest_file_keys helper configuration [] m = Inr ks)
               \<and> open_avro (AvroBytes (AvroContainer (AVRO_RECORD leaves) file_blocks)) = Inr file_reader
               \<and> parseAvro file_reader (avroNodeToDataType (snd (leaves ! 2))) ''data_file'' = Inr columns"
  then have reader: "open_avro (AvroBytes (AvroContainer (AVRO_RECORD leaves) file_blocks)) = Inr file_reader"
    and parsed: "parseAvro file_reader (avroNodeToDataType (snd (leaves ! 2))) ''data_file'' = Inr columns"
    and earlier: "\<forall>m \<in> set earlier. \<exists>ks. manifest_file_keys helper configuration [] m = Inr ks"
    and files: "manifest_files = earlier @ manifest_file # later"
    by simp_all
  from getFilesForRead_loop_first_failure [OF earlier
         manifest_file_keys_mismatch(2) [OF assms(1,2,3) reader parsed], of "[]" later] files
  show "getFilesForRead helper manifest_files configuration
                     = Inl (case snd (leaves ! 2) of
                              AVRO_RECORD ((n, first) # rest) \<Rightarrow>
                                ILLEGAL_COLUMN ''file_path'' ''String''
                                  (getFamilyName (createColumn (avroNodeToDataType first)))
                            | other \<Rightarrow>
                                ILLEGAL_COLUMN ''data_file'' ''Tuple''
                                  (getFamilyName (createColumn (avroNodeToDataType other))))"
    by (simp add: getFilesForRead_def)
qed

theorem getFilesForRead_type_mismatch_witness:
  "manifest_file_keys (table_helper mistyped_table) \<lparr>url_key = ''tbl''\<rparr> [] ''tbl/metadata/m0.avro''
     = Inr [''p=1/a.parquet'']
   \<and> getFilesForRead (table_helper mistyped_table)
        [''tbl/metadata/m0.avro'', ''tbl/metadata/m1.avro''] \<lparr>url_key = ''tbl''\<rparr>
     = Inl (ILLEGAL_COLUMN ''file_path'' ''String'' ''Int64'')"
proof -
  let ?leaves = "[(''status'', AVRO_INT), (''snapshot_id'', AVRO_LONG),
             (''data_file'', AVRO_RECORD [(''file_path'', AVRO_LONG), (''record_count'', AVRO_LONG)])]"
  let ?blocks = "[[DRecord [DInt 1, DLong 7, DRecord [DLong 42, DLong 100]]]]"
  let ?reader = "\<lparr>dataSchema = AVRO_RECORD ?leaves, objectCount = 0, stream = [],
                  pending = ?blocks, eof = False\<rparr>"
  let ?helper = "table_helper mistyped_table"
  let ?cfg = "\<lparr>url_key = ''tbl''\<rparr>"
  have first_file: "manifest_file_keys ?helper ?cfg [] ''tbl/metadata/m0.avro'' = Inr [''p=1/a.parquet'']"
    by code_simp
  have h1: "createReadBuffer ?helper ''tbl/metadata/m1.avro'' ?cfg
              = Inr (AvroBytes (AvroContainer (AVRO_RECORD ?leaves) ?blocks))"
    by code_simp
  have h2: "2 < length ?leaves"
    by simp
  have h3: "(\<forall>sub. snd (?leaves ! 2) \<noteq> AVRO_RECORD sub)
         \<or> (\<exists>n first rest. snd (?leaves ! 2) = AVRO_RECORD ((n, first) # rest) \<and> first \<noteq> AVRO_STRING)"
    by (simp add: numeral_2_eq_2)
  have h4: "''tbl/metadata/m1.avro'' \<in> set [''tbl/metadata/m0.avro'', ''tbl/metadata/m1.avro'']"
    by simp
  have parsed: "parseAvro ?reader (avroNodeToDataType (snd (?leaves ! 2))) ''data_file''
                  = Inr [ColumnTuple [ColumnInt64 [42], ColumnInt64 [100]]]"
    by code_simp
  have h5: "[''tbl/metadata/m0.avro'', ''tbl/metadata/m1.avro'']
              = [''tbl/metadata/m0.avro''] @ ''tbl/metadata/m1.avro'' # []
            \<and> (\<forall>m \<in> set [''tbl/metadata/m0.avro'']. \<exists>ks. manifest_file_keys ?helper ?cfg [] m = Inr ks)
            \<and> open_avro (AvroBytes (AvroContainer (AVRO_RECORD ?leaves) ?blocks)) = Inr ?reader
            \<and> parseAvro ?reader (avroNodeToDataType (snd (?leaves ! 2))) ''data_file''
                = Inr [ColumnTuple [ColumnInt64 [42], ColumnInt64 [100]]]"
    using first_file parsed by (simp add: open_avro_def)
  have mismatch: "(case snd (?leaves ! 2) of
                              AVRO_RECORD ((n, first) # rest) \<Rightarrow>
                                ILLEGAL_COLUMN ''file_path'' ''String''
                                  (getFamilyName (createColumn (avroNodeToDataType first)))
                            | other \<Rightarrow>
                                ILLEGAL_COLUMN ''data_file'' ''Tuple''
                                  (getFamilyName (createColumn (avroNodeToDataType other))))
                  = ILLEGAL_COLUMN ''file_path'' ''String'' ''Int64''"
    by (simp add: numeral_2_eq_2)
  from getFilesForRead_type_mismatch [OF h1 h2 h3 h4, THEN conjunct2,
         THEN spec, THEN spec, THEN spec, THEN spec, THEN mp, OF h5]
  have "getFilesForRead ?helper [''tbl/metadata/m0.avro'', ''tbl/metadata/m1.avro''] ?cfg
          = Inl (ILLEGAL_COLUMN ''file_path'' ''String'' ''Int64'')"
    unfolding mismatch .
  with first_file show ?thesis
    by (rule conjI)
qed

subsection \<open>The manifest readers\<close>

lemma has_filename_iff: "has_filename p \<longleftrightarrow> p \<noteq> [] \<and> last p \<noteq> CHR ''/''"
  by (simp add: has_filename_def filename_empty_iff)

lemma filename_after_prefix:
  assumes "prefix = [] \<or> last prefix = CHR ''/''"
  shows "filename (prefix @ q) = filename q"
proof (cases "prefix = []")
  case True
  then show ?thesis by simp
next
  case False
  with assms obtain k where "prefix = k @ [CHR ''/'']"
    by (metis append_butlast_last_id)
  then have "prefix @ q = k @ CHR ''/'' # q"
    by simp
  then show ?thesis
    by (simp only: filename_append_separator)
qed

lemma parent_path_append:
  assumes "q \<noteq> []" "last q \<noteq> CHR ''/''" "CHR ''/'' \<notin> set name"
  shows "parent_path (q @ CHR ''/'' # name) = q"
proof -
  have "dropWhile (\<lambda>c. c \<noteq> CHR ''/'') (rev name @ CHR ''/'' # rev q) = CHR ''/'' # rev q"
    using assms(3) by (auto simp: dropWhile_append3)
  moreover have "dropWhile (\<lambda>c. c = CHR ''/'') (rev q) = rev q"
    using assms(1,2) by (cases q rule: rev_cases) simp_all
  moreover have "\<exists>x\<in>set q. x \<noteq> CHR ''/''"
    using assms(1,2) last_in_set by blast
  ultimately show ?thesis
    using assms(1) by (simp add: parent_path_def Let_def)
qed

lemma partition_and_filename:
  assumes "prefix = [] \<or> last prefix = CHR ''/''"
    and "part \<noteq> []" "CHR ''/'' \<notin> set part" "CHR ''/'' \<notin> set name"
  shows "path_append (filename (parent_path (prefix @ part @ ''/'' @ name)))
           (filename (prefix @ part @ ''/'' @ name))
         = part @ ''/'' @ name"
proof -
  have last: "last (prefix @ part) \<noteq> CHR ''/''"
    using assms(2,3) by (cases part rule: rev_cases) auto
  have "parent_path ((prefix @ part) @ CHR ''/'' # name) = prefix @ part"
    using assms(2,4) last by (intro parent_path_append) simp_all
  then have parent: "filename (parent_path (prefix @ part @ ''/'' @ name)) = part"
    using filename_after_prefix [OF assms(1), of part] assms(3)
    by (simp add: filename_without_separator)
  have "filename ((prefix @ part) @ CHR ''/'' # name) = filename name"
    by (rule filename_append_separator)
  then have name: "filename (prefix @ part @ ''/'' @ name) = name"
    using assms(4) by (simp add: filename_without_separator)
  have "\<not> is_absolute name"
    using assms(4) by (cases name) (auto simp: is_absolute_def)
  moreover have "has_filename part"
    using assms(2,3) by (simp add: has_filename_def filename_without_separator)
  ultimately show ?thesis
    unfolding parent name by (simp add: path_append_def)
qed

lemma getManifestFiles_manifest_list:
  assumes "createReadBuffer helper manifest_list configuration = Inr (AvroBytes container)"
    and "manifest_list_entries container = Some paths"
  shows "getManifestFiles helper manifest_list configuration
           = Inr (map (\<lambda>file_path.
                         path_append (path_append (url_key configuration) metadata_directory)
                           (filename file_path)) paths)"
proof -
  from assms(2) obtain leaves file_blocks where container:
    "container = AvroContainer (AVRO_RECORD leaves) file_blocks"
    and first: "field_index ''manifest_path'' leaves = Some 0" "snd (leaves ! 0) = AVRO_STRING"
    and rows: "those (map (string_field 0) (concat file_blocks)) = Some paths"
    by (auto simp: manifest_list_entries_def split: avro_container.splits avro_type.splits if_splits)
  from field_index_Some [OF first(1)] have "leaves \<noteq> []"
    by auto
  from getManifestFiles_named_column [OF assms(1) [unfolded container] this first(2) first]
    rows show ?thesis
    by (simp add: those_map_Some)
qed

lemma manifest_file_keys_manifest_file:
  assumes "createReadBuffer helper manifest_file configuration = Inr (AvroBytes container)"
    and "data_file_entries container = Some paths"
  shows "manifest_file_keys helper configuration keys manifest_file
           = Inr (keys @ map (\<lambda>file_path.
                                path_append (filename (parent_path file_path)) (filename file_path))
                            paths)"
proof -
  from assms(2) obtain leaves file_blocks where container:
    "container = AvroContainer (AVRO_RECORD leaves) file_blocks"
    and third: "field_index ''data_file'' leaves = Some 2"
    by (auto simp: data_file_entries_def split: avro_container.splits avro_type.splits if_splits)
  with assms(2) obtain n rest where nested: "snd (leaves ! 2) = AVRO_RECORD ((n, AVRO_STRING) # rest)"
    and rows: "those (map (file_path_field 2 (snd (leaves ! 2))) (concat file_blocks)) = Some paths"
    by (auto simp: data_file_entries_def split: avro_type.splits list.splits prod.splits)
  from field_index_Some [OF third] have "2 < length leaves"
    by simp
  from manifest_file_keys_named_column [OF assms(1) [unfolded container] this third nested refl]
    rows show ?thesis
    by (simp add: those_map_Some)
qed

lemma getFilesForRead_loop_manifest_files:
  assumes "\<forall>m \<in> set manifest_files.
             \<exists>container. createReadBuffer helper m configuration = Inr (AvroBytes container)
                \<and> data_file_entries container = Some (entries m)"
  shows "getFilesForRead_loop helper configuration keys manifest_files
           = Inr (keys @ concat (map (\<lambda>m. map (\<lambda>file_path.
                                 path_append (filename (parent_path file_path)) (filename file_path))
                               (entries m)) manifest_files))"
  using assms
proof (induction manifest_files arbitrary: keys)
  case Nil
  then show ?case by simp
next
  case (Cons m ms)
  then obtain container where "createReadBuffer helper m configuration = Inr (AvroBytes container)"
    "data_file_entries container = Some (entries m)"
    by auto
  from manifest_file_keys_manifest_file [OF this, of keys] Cons show ?case
    by simp
qed

text \<open>
  C1, as amended. For every entry of every manifest file, the reader keeps the name of
  the immediate parent directory of the extracted path joined with its file name, and
  prepends nothing: the output of \<open>getFilesForRead\<close>, which is the output of \<open>getFiles\<close>,
  is the list of these pairs in file order. For a path \<^verbatim>\<open><prefix><partition>/<name>\<close>
  the pair is \<^verbatim>\<open><partition>/<name>\<close>.
\<close>

theorem getFilesForRead_partition_and_filename:
  assumes "\<forall>m \<in> set manifest_files.
             \<exists>container. createReadBuffer helper m configuration = Inr (AvroBytes container)
                \<and> data_file_entries container = Some (entries m)"
  shows "getFilesForRead helper manifest_files configuration
           = Inr (concat (map (\<lambda>m. map (\<lambda>file_path.
                                 path_append (filename (parent_path file_path)) (filename file_path))
                               (entries m)) manifest_files))
         \<and> (\<forall>manifest_list.
               getManifestListFromMetadata helper cv configuration = Inr manifest_list
               \<and> manifest_list \<noteq> []
               \<and> getManifestFiles helper manifest_list configuration = Inr manifest_files
               \<longrightarrow> getFiles helper cv configuration
                     = Inr (concat (map (\<lambda>m. map (\<lambda>file_path.
                                 path_append (filename (parent_path file_path)) (filename file_path))
                               (entries m)) manifest_files)))
         \<and> (\<forall>prefix part name.
               (prefix = [] \<or> last prefix = CHR ''/'') \<and> part \<noteq> []
               \<and> CHR ''/'' \<notin> set part \<and> CHR ''/'' \<notin> set name
               \<longrightarrow> path_append (filename (parent_path (prefix @ part @ ''/'' @ name)))
                     (filename (prefix @ part @ ''/'' @ name))
                   = part @ ''/'' @ name)"
proof -
  have keys: "getFilesForRead helper manifest_files configuration
           = Inr (concat (map (\<lambda>m. map (\<lambda>file_path.
                                 path_append (filename (parent_path file_path)) (filename file_path))
                               (entries m)) manifest_files))"
    using getFilesForRead_loop_manifest_files [OF assms, of "[]"]
    by (simp add: getFilesForRead_def)
  have reanchored: "\<forall>prefix part name.
               (prefix = [] \<or> last prefix = CHR ''/'') \<and> part \<noteq> []
               \<and> CHR ''/'' \<notin> set part \<and> CHR ''/'' \<notin> set name
               \<longrightarrow> path_append (filename (parent_path (prefix @ part @ ''/'' @ name)))
                     (filename (prefix @ part @ ''/'' @ name))
                   = part @ ''/'' @ name"
    using partition_and_filename by blast
  from keys have "\<forall>manifest_list.
               getManifestListFromMetadata helper cv configuration = Inr manifest_list
               \<and> manifest_list \<noteq> []
               \<and> getManifestFiles helper manifest_list configuration = Inr manifest_files
               \<longrightarrow> getFiles helper cv configuration
                     = Inr (concat (map (\<lambda>m. map (\<lambda>file_path.
                                 path_append (filename (parent_path file_path)) (filename file_path))
                               (entries m)) manifest_files))"
    by (simp add: getFiles_def)
  with keys reanchored show ?thesis
    by (intro conjI)
qed

theorem getFilesForRead_partition_and_filename_witness:
  "getFilesForRead (table_helper yearly_table) [''lake/events/metadata/m31.avro'']
      \<lparr>url_key = ''lake/events''\<rparr>
     = Inr [''year=2023/part-0.parquet'']"
proof -
  let ?container = "AvroContainer
          (AVRO_RECORD [(''status'', AVRO_INT), (''snapshot_id'', AVRO_LONG),
             (''data_file'', AVRO_RECORD [(''file_path'', AVRO_STRING), (''record_count'', AVRO_LONG)])])
          [[DRecord [DInt 1, DLong 31,
               DRecord [DString ''s3://bucket/lake/events/data/year=2023/part-0.parquet'', DLong 9]]]]"
  let ?entries = "\<lambda>m::string. [''s3://bucket/lake/events/data/year=2023/part-0.parquet'']"
  have opened: "createReadBuffer (table_helper yearly_table) ''lake/events/metadata/m31.avro''
                  \<lparr>url_key = ''lake/events''\<rparr> = Inr (AvroBytes ?container)"
    by code_simp
  have entries: "data_file_entries ?container
                   = Some [''s3://bucket/lake/events/data/year=2023/part-0.parquet'']"
    by code_simp
  have h: "\<forall>m \<in> set [''lake/events/metadata/m31.avro''].
             \<exists>container. createReadBuffer (table_helper yearly_table) m \<lparr>url_key = ''lake/events''\<rparr>
                  = Inr (AvroBytes container)
                \<and> data_file_entries container = Some (?entries m)"
    using opened entries by simp
  have reanchored: "path_append
            (filename (parent_path ''s3://bucket/lake/events/data/year=2023/part-0.parquet''))
            (filename ''s3://bucket/lake/events/data/year=2023/part-0.parquet'')
          = ''year=2023/part-0.parquet''"
    by code_simp
  from getFilesForRead_partition_and_filename [OF h, THEN conjunct1]
  show ?thesis
    by (simp add: reanchored)
qed

text \<open>
  C1 as stated fails: the path \<open>getFiles\<close> returns for a table under \<^verbatim>\<open>lake/events\<close>
  does not begin with the table root.
\<close>

theorem getFiles_output_not_under_metadata:
  "getFiles (table_helper yearly_table) strict_conversions \<lparr>url_key = ''lake/events''\<rparr>
     = Inr [''year=2023/part-0.parquet'']
   \<and> path_append ''lake/events'' metadata_directory = ''lake/events/metadata''
   \<and> \<not> starts_with ''year=2023/part-0.parquet'' ''lake/events''"
  by code_simp

text \<open>
  C3. A table with one snapshot, whose manifest list has one entry, pointing to one
  manifest file that lists \<^verbatim>\<open>a.parquet\<close> under \<^verbatim>\<open>p=1/\<close> and \<^verbatim>\<open>b.parquet\<close> under
  \<^verbatim>\<open>p=2/\<close> (below any directories \<open>prefix1\<close> and \<open>prefix2\<close>): \<open>getFiles\<close> returns
  exactly the two relative paths, in file order.
\<close>

theorem getFiles_end_to_end:
  assumes "getMetadataFile helper configuration = Inr metadata_file_path"
    and "createReadBuffer helper metadata_file_path configuration = Inr (JsonText (JObject object))"
    and "getValue_Int64 cv object ''current-snapshot-id'' = Inr current"
    and "Object_get object ''snapshots'' = JArray [snapshot]"
    and "snapshot_id_of cv snapshot = Inr current"
    and "manifest_list_of cv snapshot = Inr manifest_list"
    and "createReadBuffer helper
           (path_append (path_append (url_key configuration) metadata_directory) (filename manifest_list))
           configuration = Inr (AvroBytes list_container)"
    and "manifest_list_entries list_container = Some [manifest_path]"
    and "createReadBuffer helper
           (path_append (path_append (url_key configuration) metadata_directory) (filename manifest_path))
           configuration = Inr (AvroBytes manifest_container)"
    and "data_file_entries manifest_container
           = Some [prefix1 @ ''p=1/a.parquet'', prefix2 @ ''p=2/b.parquet'']"
    and "prefix1 = [] \<or> last prefix1 = CHR ''/''"
    and "prefix2 = [] \<or> last prefix2 = CHR ''/''"
  shows "getFiles helper cv configuration = Inr [''p=1/a.parquet'', ''p=2/b.parquet'']"
proof -
  let ?anchor = "\<lambda>p. path_append (path_append (url_key configuration) metadata_directory) (filename p)"
  have "scan_snapshots cv configuration current ([] @ snapshot # []) = Inr (?anchor manifest_list)"
    using assms(5,6) by (intro scan_snapshots_first_match) simp_all
  then have resolved: "getManifestListFromMetadata helper cv configuration = Inr (?anchor manifest_list)"
    using getManifestListFromMetadata_document [OF assms(1,2), of cv] assms(3,4)
    by (simp add: extract_Array_def)
  have nonempty: "?anchor manifest_list \<noteq> []"
    by (simp add: metadata_path_eq)
  have manifests: "getManifestFiles helper (?anchor manifest_list) configuration
                     = Inr [?anchor manifest_path]"
    using getManifestFiles_manifest_list [OF assms(7,8)] by simp
  have a: "path_append (filename (parent_path (prefix1 @ ''p=1'' @ ''/'' @ ''a.parquet'')))
             (filename (prefix1 @ ''p=1'' @ ''/'' @ ''a.parquet'')) = ''p=1'' @ ''/'' @ ''a.parquet''"
    using assms(11) by (intro partition_and_filename) simp_all
  have b: "path_append (filename (parent_path (prefix2 @ ''p=2'' @ ''/'' @ ''b.parquet'')))
             (filename (prefix2 @ ''p=2'' @ ''/'' @ ''b.parquet'')) = ''p=2'' @ ''/'' @ ''b.parquet''"
    using assms(12) by (intro partition_and_filename) simp_all
  have "manifest_file_keys helper configuration [] (?anchor manifest_path)
          = Inr [''p=1/a.parquet'', ''p=2/b.parquet'']"
    using manifest_file_keys_manifest_file [OF assms(9,10), of "[]"] a b by simp
  then have "getFilesForRead helper [?anchor manifest_path] configuration
               = Inr [''p=1/a.parquet'', ''p=2/b.parquet'']"
    by (simp add: getFilesForRead_def)
  with resolved nonempty manifests show ?thesis
    by (simp add: getFiles_def)
qed

theorem getFiles_end_to_end_witness:
  "getFiles (table_helper iceberg_table) strict_conversions \<lparr>url_key = ''warehouse/tbl''\<rparr>
     = Inr [''p=1/a.parquet'', ''p=2/b.parquet'']"
proof -
  let ?helper = "table_helper iceberg_table"
  let ?cfg = "\<lparr>url_key = ''warehouse/tbl''\<rparr>"
  let ?snapshot = "JObject [(''snapshot-id'', JInt 7),
             (''manifest-list'', JString ''/data/warehouse/tbl/metadata/snap-7.avro'')]"
  let ?object = "[(''format-version'', JInt 1), (''current-snapshot-id'', JInt 7),
          (''snapshots'', JArray [?snapshot])]"
  let ?list_container = "AvroContainer
          (AVRO_RECORD [(''manifest_path'', AVRO_STRING), (''manifest_length'', AVRO_LONG)])
          [[DRecord [DString ''/data/warehouse/tbl/metadata/m0.avro'', DLong 5813]]]"
  let ?manifest_container = "AvroContainer
          (AVRO_RECORD [(''status'', AVRO_INT), (''snapshot_id'', AVRO_LONG),
             (''data_file'', AVRO_RECORD [(''file_path'', AVRO_STRING),
                (''file_format'', AVRO_STRING), (''record_count'', AVRO_LONG)])])
          [[DRecord [DInt 1, DLong 7,
               DRecord [DString ''/data/warehouse/tbl/data/p=1/a.parquet'', DString ''PARQUET'', DLong 100]],
            DRecord [DInt 1, DLong 7,
               DRecord [DString ''/data/warehouse/tbl/data/p=2/b.parquet'', DString ''PARQUET'', DLong 50]]]]"
  have h1: "getMetadataFile ?helper ?cfg = Inr ''warehouse/tbl/metadata/v1.metadata.json''"
    by code_simp
  have h2: "createReadBuffer ?helper ''warehouse/tbl/metadata/v1.metadata.json'' ?cfg
              = Inr (JsonText (JObject ?object))"
    by code_simp
  have h3: "getValue_Int64 strict_conversions ?object ''current-snapshot-id'' = Inr 7"
    by code_simp
  have h4: "Object_get ?object ''snapshots'' = JArray [?snapshot]"
    by code_simp
  have h5: "snapshot_id_of strict_conversions ?snapshot = Inr 7"
    by code_simp
  have h6: "manifest_list_of strict_conversions ?snapshot
              = Inr ''/data/warehouse/tbl/metadata/snap-7.avro''"
    by code_simp
  have h7: "createReadBuffer ?helper
           (path_append (path_append (url_key ?cfg) metadata_directory)
              (filename ''/data/warehouse/tbl/metadata/snap-7.avro''))
           ?cfg = Inr (AvroBytes ?list_container)"
    by code_simp
  have h8: "manifest_list_entries ?list_container = Some [''/data/warehouse/tbl/metadata/m0.avro'']"
    by code_simp
  have h9: "createReadBuffer ?helper
           (path_append (path_append (url_key ?cfg) metadata_directory)
              (filename ''/data/warehouse/tbl/metadata/m0.avro''))
           ?cfg = Inr (AvroBytes ?manifest_container)"
    by code_simp
  have h10: "data_file_entries ?manifest_container
           = Some [''/data/warehouse/tbl/data/'' @ ''p=1/a.parquet'',
                   ''/data/warehouse/tbl/data/'' @ ''p=2/b.parquet'']"
    by code_simp
  have h11: "''/data/warehouse/tbl/data/'' = [] \<or> last ''/data/warehouse/tbl/data/'' = CHR ''/''"
    by simp
  from getFiles_end_to_end [OF h1 h2 h3 h4 h5 h6 h7 h8 h9 h10 h11 h11]
  show ?thesis .
qed

end
